theory Spec2Isabelle
  imports Main "HOL-Library.Word"
begin

section \<open>The V4L2Camera device of V4L2Camera.cpp\<close>

text \<open>
  The development embeds \<^verbatim>\<open>src/libraries/camera/V4L2Camera.cpp\<close>. The C++ \<^verbatim>\<open>int\<close>
  values (widths, heights, sizes, file descriptors, status codes) are integers, and
  division is C's, which truncates towards zero. \<^verbatim>\<open>int\<close> has 32 bits: the products
  that \<^verbatim>\<open>commonStartDevice\<close> computes from its arguments are reduced to that range
  by two's-complement wrap-around (\<open>int32\<close>). The read-out functions multiply the
  cached width and height as mathematical integers; their theorems ask for buffers
  of the full frame size, which no wrapped 32-bit size reaches.
\<close>

subsection \<open>Status codes, pixel formats, device states\<close>

type_synonym status_t = int

text \<open>The values of \<^verbatim>\<open>utils/Errors.h\<close> and \<^verbatim>\<open>errno.h\<close>.\<close>

definition NO_ERROR :: status_t where
  "NO_ERROR = 0"

definition OK :: status_t where
  "OK = 0"

definition ENOMEM :: status_t where
  "ENOMEM = 12"

definition EINVAL :: status_t where
  "EINVAL = 22"

text \<open>
  The four-character codes of \<^verbatim>\<open>linux/videodev2.h\<close>: 'YV12', 'YU12', 'NV21', 'NV12',
  first character in the low byte. A pixel format is a \<^verbatim>\<open>uint32_t\<close>.
\<close>

definition V4L2_PIX_FMT_YVU420 :: "32 word" where
  "V4L2_PIX_FMT_YVU420 = 0x32315659"

definition V4L2_PIX_FMT_YUV420 :: "32 word" where
  "V4L2_PIX_FMT_YUV420 = 0x32315559"

definition V4L2_PIX_FMT_NV21 :: "32 word" where
  "V4L2_PIX_FMT_NV21 = 0x3132564E"

definition V4L2_PIX_FMT_NV12 :: "32 word" where
  "V4L2_PIX_FMT_NV12 = 0x3231564E"

text \<open>
  Modelled from the spec: the header \<^verbatim>\<open>V4L2Camera.h\<close> is not among the sources. It
  declares the state enum, of which the code names \<^verbatim>\<open>ECDS_CONSTRUCTED\<close> and
  \<^verbatim>\<open>ECDS_INITIALIZED\<close>; the spec (section 3) lists the states Constructed, Initialized,
  Started and Stopped-but-initialized.
\<close>

datatype EmulatedCameraDeviceState =
  ECDS_CONSTRUCTED | ECDS_INITIALIZED | ECDS_STOPPED | ECDS_STARTED

text \<open>
  The value a 32-bit \<^verbatim>\<open>int\<close> holds after an operation whose mathematical result is
  \<open>x\<close>: \<open>x\<close> itself between \<open>-2^31\<close> and \<open>2^31 - 1\<close>, wrapped around modulo \<open>2^32\<close>
  otherwise.
\<close>

definition int32 :: "int \<Rightarrow> int" where
  "int32 x = (x + 2147483648) mod 4294967296 - 2147483648"

text \<open>C's integer division, truncating towards zero.\<close>

definition c_div :: "int \<Rightarrow> int \<Rightarrow> int" where
  "c_div a b = sgn a * sgn b * (\<bar>a\<bar> div \<bar>b\<bar>)"

subsection \<open>Memory\<close>

text \<open>
  The heap is the sequence of all allocations made so far: the address of a block is
  its position, a live block holds its bytes and a freed block is \<open>None\<close>. A pointer is
  a block address and a byte offset into the block; the null pointer is \<open>None\<close> of
  \<open>ptr option\<close>. Every access outside a live block is undefined behaviour of the C++
  code and is the result \<open>Inl OutOfBounds\<close> here.
\<close>

type_synonym byte = "8 word"
type_synonym addr = nat
type_synonym heap = "byte list option list"
type_synonym ptr = "addr \<times> int"

datatype fault = OutOfBounds

definition blk :: "heap \<Rightarrow> addr \<Rightarrow> byte list option" where
  "blk h a = (if a < length h then h ! a else None)"

definition live :: "heap \<Rightarrow> addr set" where
  "live h = {a. a < length h \<and> h ! a \<noteq> None}"

definition ptr_add :: "ptr \<Rightarrow> int \<Rightarrow> ptr" where
  "ptr_add p k = (fst p, snd p + k)"

definition load :: "heap \<Rightarrow> ptr \<Rightarrow> fault + byte" where
  "load h p =
     (case blk h (fst p) of
        None \<Rightarrow> Inl OutOfBounds
      | Some bs \<Rightarrow>
          if 0 \<le> snd p \<and> snd p < int (length bs) then Inr (bs ! nat (snd p))
          else Inl OutOfBounds)"

definition store :: "heap \<Rightarrow> ptr \<Rightarrow> byte \<Rightarrow> fault + heap" where
  "store h p v =
     (case blk h (fst p) of
        None \<Rightarrow> Inl OutOfBounds
      | Some bs \<Rightarrow>
          if 0 \<le> snd p \<and> snd p < int (length bs)
          then Inr (h[fst p := Some (bs[nat (snd p) := v])])
          else Inl OutOfBounds)"

text \<open>
  \<^verbatim>\<open>memcpy(dst, src, n)\<close>. The count is a \<^verbatim>\<open>size_t\<close>: a negative \<^verbatim>\<open>int\<close> converts to a
  count beyond every block. Both ranges must lie in live blocks and must not overlap.
\<close>

definition memcpy :: "heap \<Rightarrow> ptr \<Rightarrow> ptr \<Rightarrow> int \<Rightarrow> fault + heap" where
  "memcpy h dst src n =
     (case (blk h (fst dst), blk h (fst src)) of
        (Some db, Some sb) \<Rightarrow>
          if 0 \<le> n \<and> 0 \<le> snd src \<and> snd src + n \<le> int (length sb)
             \<and> 0 \<le> snd dst \<and> snd dst + n \<le> int (length db)
             \<and> (fst dst \<noteq> fst src \<or> snd dst + n \<le> snd src \<or> snd src + n \<le> snd dst)
          then Inr (h[fst dst := Some (take (nat (snd dst)) db
                                        @ take (nat n) (drop (nat (snd src)) sb)
                                        @ drop (nat (snd dst + n)) db)])
          else Inl OutOfBounds
      | _ \<Rightarrow> Inl OutOfBounds)"

text \<open>
  \<^verbatim>\<open>new uint8_t[n]\<close>. Whether the allocation succeeds, and what the fresh storage
  holds, is the environment's choice. The code tests the result against \<^verbatim>\<open>NULL\<close>, so a
  failed allocation is the null pointer; a negative size cannot be allocated.
\<close>

datatype alloc_outcome = AllocFails | AllocGives "nat \<Rightarrow> byte"

definition new_array :: "alloc_outcome \<Rightarrow> heap \<Rightarrow> int \<Rightarrow> ptr option \<times> heap" where
  "new_array env h n =
     (case env of
        AllocFails \<Rightarrow> (None, h)
      | AllocGives init \<Rightarrow>
          if n < 0 then (None, h)
          else (Some (length h, 0), h @ [Some (map init [0..<nat n])]))"

text \<open>\<^verbatim>\<open>delete[] p\<close> of a non-null pointer: the block must be live and \<open>p\<close> its start.\<close>

definition delete_array :: "heap \<Rightarrow> ptr \<Rightarrow> fault + heap" where
  "delete_array h p =
     (case blk h (fst p) of
        None \<Rightarrow> Inl OutOfBounds
      | Some bs \<Rightarrow> if snd p = 0 then Inr (h[fst p := None]) else Inl OutOfBounds)"

subsection \<open>The device object\<close>

text \<open>
  The worker thread object holds the two ends of the control pipe, \<open>-1\<close> when closed.
\<close>

record WorkerThread =
  mThreadControl :: int
  mControlFD :: int

text \<open>
  The fields of the class that the code reads or writes. The locks and condition
  variables appear as the waits of \<open>stopDeliveringFrames\<close> below.
\<close>

record V4L2Camera =
  mCurFrameTimestamp :: int
  mCurrentFrame :: "ptr option"
  mFrameBufferSize :: int
  mFrameWidth :: int
  mFrameHeight :: int
  mPixelFormat :: "32 word"
  mTotalPixels :: int
  mState :: EmulatedCameraDeviceState
  mTakingPicture :: bool
  mInPictureThread :: bool
  mThreadRunning :: bool
  mWorkerThread :: "WorkerThread option"

text \<open>
  Modelled from the spec: \<^verbatim>\<open>isInitialized\<close> and \<^verbatim>\<open>isStarted\<close> are inline members of
  the absent header. Following sections 3 and 4.1 of the spec, a device is initialized
  once its worker object exists and its state has left Constructed, and it is started
  exactly in the state Started.
\<close>

definition isInitialized :: "V4L2Camera \<Rightarrow> bool" where
  "isInitialized d = (mWorkerThread d \<noteq> None \<and> mState d \<noteq> ECDS_CONSTRUCTED)"

definition isStarted :: "V4L2Camera \<Rightarrow> bool" where
  "isStarted d = (mState d = ECDS_STARTED)"

text \<open>
  \<^verbatim>\<open>V4L2Camera::Initialize\<close>. The argument \<open>new_wt\<close> is what
  \<^verbatim>\<open>new WorkerThread(this)\<close> yields: the fresh object, or \<open>None\<close> for \<^verbatim>\<open>NULL\<close>.
\<close>

definition Initialize :: "WorkerThread option \<Rightarrow> V4L2Camera \<Rightarrow> status_t \<times> V4L2Camera" where
  "Initialize new_wt d =
     (if isInitialized d then (NO_ERROR, d)
      else
        let d1 = d\<lparr>mWorkerThread := new_wt\<rparr> in
        if mWorkerThread d1 = None then (ENOMEM, d1)
        else (NO_ERROR, d1\<lparr>mState := ECDS_INITIALIZED\<rparr>))"

text \<open>
  \<^verbatim>\<open>V4L2Camera::commonStartDevice\<close>, on the heap and the device. The switch validates
  the format and sets \<open>mFrameBufferSize\<close>; the frame information is cached; then the
  frame buffer is allocated and the result tested. Each product of two \<^verbatim>\<open>int\<close> values
  is an \<^verbatim>\<open>int\<close>: \<^verbatim>\<open>(width * height * 12) / 8\<close> multiplies twice, wrapping each time,
  and then divides.
\<close>

definition supported_format :: "32 word \<Rightarrow> bool" where
  "supported_format pix_fmt =
     (pix_fmt = V4L2_PIX_FMT_YVU420 \<or> pix_fmt = V4L2_PIX_FMT_YUV420
      \<or> pix_fmt = V4L2_PIX_FMT_NV21 \<or> pix_fmt = V4L2_PIX_FMT_NV12)"

definition commonStartDevice ::
  "alloc_outcome \<Rightarrow> int \<Rightarrow> int \<Rightarrow> 32 word \<Rightarrow> heap \<times> V4L2Camera
   \<Rightarrow> status_t \<times> heap \<times> V4L2Camera" where
  "commonStartDevice env width height pix_fmt s =
     (case s of (h, d) \<Rightarrow>
        if supported_format pix_fmt then
          let d1 = d\<lparr>mFrameBufferSize := c_div (int32 (int32 (width * height) * 12)) 8\<rparr>;
              d2 = d1\<lparr>mFrameWidth := width, mFrameHeight := height,
                      mPixelFormat := pix_fmt, mTotalPixels := int32 (width * height)\<rparr>;
              (p, h') = new_array env h (mFrameBufferSize d2);
              d3 = d2\<lparr>mCurrentFrame := p\<rparr>
          in if mCurrentFrame d3 = None then (ENOMEM, h', d3) else (NO_ERROR, h', d3)
        else (EINVAL, h, d))"

text \<open>\<^verbatim>\<open>V4L2Camera::commonStopDevice\<close>.\<close>

definition commonStopDevice :: "heap \<times> V4L2Camera \<Rightarrow> fault + (heap \<times> V4L2Camera)" where
  "commonStopDevice s =
     (case s of (h, d) \<Rightarrow>
        (let d1 = d\<lparr>mFrameWidth := 0, mFrameHeight := 0, mTotalPixels := 0\<rparr>;
             d2 = d1\<lparr>mPixelFormat := 0\<rparr>
         in (case mCurrentFrame d2 of
               None \<Rightarrow> Inr (h, d2)
             | Some p \<Rightarrow>
                 (case delete_array h p of
                    Inl e \<Rightarrow> Inl e
                  | Inr h' \<Rightarrow> Inr (h', d2\<lparr>mCurrentFrame := None\<rparr>)))))"

subsection \<open>Reading the current frame\<close>

text \<open>
  \<^verbatim>\<open>NV12ToNV21\<close>: the luma plane is copied with \<^verbatim>\<open>memcpy\<close>; the loop
  \<^verbatim>\<open>for (i = 0; i < width * height / 2; i += 2)\<close> writes \<^verbatim>\<open>dst_uv[i] = src_uv[i + 1]\<close> and
  then \<^verbatim>\<open>dst_uv[i + 1] = src_uv[i]\<close>.
\<close>

function NV12ToNV21_loop :: "heap \<Rightarrow> ptr \<Rightarrow> ptr \<Rightarrow> int \<Rightarrow> int \<Rightarrow> fault + heap" where
  "NV12ToNV21_loop h src_uv dst_uv n i =
     (if i < n then
        (case load h (ptr_add src_uv (i + 1)) of
           Inl e \<Rightarrow> Inl e
         | Inr b1 \<Rightarrow>
            (case store h (ptr_add dst_uv i) b1 of
               Inl e \<Rightarrow> Inl e
             | Inr h1 \<Rightarrow>
                (case load h1 (ptr_add src_uv i) of
                   Inl e \<Rightarrow> Inl e
                 | Inr b0 \<Rightarrow>
                    (case store h1 (ptr_add dst_uv (i + 1)) b0 of
                       Inl e \<Rightarrow> Inl e
                     | Inr h2 \<Rightarrow> NV12ToNV21_loop h2 src_uv dst_uv n (i + 2)))))
      else Inr h)"
  by pat_completeness auto
termination
  by (relation "measure (\<lambda>(h, src_uv, dst_uv, n, i). nat (n - i))") auto

declare NV12ToNV21_loop.simps [simp del]

definition NV12ToNV21 :: "heap \<Rightarrow> ptr \<Rightarrow> ptr \<Rightarrow> int \<Rightarrow> int \<Rightarrow> fault + heap" where
  "NV12ToNV21 h nv12 nv21 width height =
     (let src_uv = ptr_add nv12 (width * height);
          dst_uv = ptr_add nv21 (width * height)
      in (case memcpy h nv21 nv12 (width * height) of
            Inl e \<Rightarrow> Inl e
          | Inr h1 \<Rightarrow> NV12ToNV21_loop h1 src_uv dst_uv (c_div (width * height) 2) 0))"

text \<open>
  \<^verbatim>\<open>V4L2Camera::getCurrentPreviewFrame\<close>.

  Modelled from the spec: the macro \<^verbatim>\<open>PREVIEW_FMT_RGBA32\<close> comes from the absent
  \<^verbatim>\<open>CameraDebug.h\<close>, and the branch under it calls the converters of the absent
  \<^verbatim>\<open>Converters.h\<close>. The spec (section 4.3, copy-out) describes the byte copy and the
  chroma swap, which is the \<^verbatim>\<open>#else\<close> branch: the macro is 0.
\<close>

definition getCurrentPreviewFrame ::
  "heap \<Rightarrow> V4L2Camera \<Rightarrow> ptr option \<Rightarrow> fault + (status_t \<times> heap)" where
  "getCurrentPreviewFrame h d buffer =
     (if \<not> isStarted d then Inr (EINVAL, h)
      else
        (case (mCurrentFrame d, buffer) of
           (Some frame, Some buf) \<Rightarrow>
             if mPixelFormat d = V4L2_PIX_FMT_NV21 then
               (case memcpy h buf frame (c_div (mFrameWidth d * mFrameHeight d * 3) 2) of
                  Inl e \<Rightarrow> Inl e
                | Inr h' \<Rightarrow> Inr (OK, h'))
             else if mPixelFormat d = V4L2_PIX_FMT_NV12 then
               (case NV12ToNV21 h frame buf (mFrameWidth d) (mFrameHeight d) of
                  Inl e \<Rightarrow> Inl e
                | Inr h' \<Rightarrow> Inr (OK, h'))
             else Inr (OK, h)
         | _ \<Rightarrow> Inr (EINVAL, h)))"

text \<open>
  The bytes the spec's copy-out asks for when an NV12 frame is read as NV21: the luma
  plane as it is, then the chroma plane with the two bytes of every pair exchanged.
\<close>

fun swap_pairs :: "'a list \<Rightarrow> 'a list" where
  "swap_pairs (x # y # zs) = y # x # swap_pairs zs"
| "swap_pairs zs = zs"

definition nv21_of_nv12 :: "nat \<Rightarrow> 'a list \<Rightarrow> 'a list" where
  "nv21_of_nv12 pixels frame =
     take pixels frame @ swap_pairs (take (pixels div 2) (drop pixels frame))"

subsection \<open>The worker thread and its control pipe\<close>

text \<open>
  Modelled from the spec: the enums \<^verbatim>\<open>ControlMessage\<close> and \<^verbatim>\<open>SelectRes\<close> are declared
  in the absent header. The spec has one control message, Stop, and the four results of
  a wait: Timeout, Ready, Stop and Error. A message on the pipe is an \<^verbatim>\<open>int\<close>-sized
  enum value.
\<close>

definition THREAD_STOP :: int where
  "THREAD_STOP = 0"

definition sizeof_msg :: int where
  "sizeof_msg = 4"

datatype SelectRes = TIMEOUT | READY | EXIT_THREAD | ERROR

text \<open>
  What a call does to the operating system, in order: the visible actions of
  \<open>stopThread\<close>.
\<close>

datatype action = Write int int | RequestExitAndWait | Close int

text \<open>
  The environment of \<^verbatim>\<open>WorkerThread::stopThread\<close>: the result of \<^verbatim>\<open>write\<close> (after
  \<^verbatim>\<open>TEMP_FAILURE_RETRY\<close>), \<^verbatim>\<open>errno\<close> after it, and the result of
  \<^verbatim>\<open>requestExitAndWait\<close>.
\<close>

record stop_env =
  wres :: int
  errno :: int
  exit_res :: status_t

definition stopThread :: "stop_env \<Rightarrow> WorkerThread \<Rightarrow> status_t \<times> WorkerThread \<times> action list" where
  "stopThread env wt =
     (if mThreadControl wt \<ge> 0 then
        (let sent = [Write (mThreadControl wt) THREAD_STOP] in
         if wres env = sizeof_msg then
           (let res = exit_res env in
            if res = NO_ERROR then
              (let wt1 = (if mThreadControl wt \<ge> 0 then wt\<lparr>mThreadControl := -1\<rparr> else wt);
                   c1 = (if mThreadControl wt \<ge> 0 then [Close (mThreadControl wt)] else []);
                   wt2 = (if mControlFD wt1 \<ge> 0 then wt1\<lparr>mControlFD := -1\<rparr> else wt1);
                   c2 = (if mControlFD wt1 \<ge> 0 then [Close (mControlFD wt1)] else [])
               in (res, wt2, sent @ [RequestExitAndWait] @ c1 @ c2))
            else (res, wt, sent @ [RequestExitAndWait]))
         else ((if errno env \<noteq> 0 then errno env else EINVAL), wt, sent))
      else (EINVAL, wt, []))"

text \<open>
  \<^verbatim>\<open>V4L2Camera::stopWorkerThread\<close>. \<open>isInitialized\<close> excludes a null worker object.
\<close>

definition stopWorkerThread ::
  "stop_env \<Rightarrow> V4L2Camera \<Rightarrow> status_t \<times> V4L2Camera \<times> action list" where
  "stopWorkerThread env d =
     (if \<not> isInitialized d then (EINVAL, d, [])
      else
        (case mWorkerThread d of
           None \<Rightarrow> (EINVAL, d, [])
         | Some wt \<Rightarrow>
             (case stopThread env wt of
                (res, wt', acts) \<Rightarrow> (res, d\<lparr>mWorkerThread := Some wt'\<rparr>, acts))))"

text \<open>
  \<^verbatim>\<open>V4L2Camera::stopDeliveringFrames\<close>. The call runs on the caller's thread. At
  \<^verbatim>\<open>pthread_cond_wait\<close> it sleeps until another thread signals the condition: \<open>wake c\<close>
  is \<open>None\<close> when no thread ever signals \<open>c\<close>, and the call does not return; it is
  \<open>Some f\<close> when the condition is signalled, \<open>f\<close> being what the other threads did to the
  device in the meantime.
\<close>

datatype cond = CondTakePhotoEnd | CondThreadRunning

datatype 'a call = Returns 'a | BlocksOn cond

definition cond_wait ::
  "(cond \<Rightarrow> (V4L2Camera \<Rightarrow> V4L2Camera) option) \<Rightarrow> cond \<Rightarrow> V4L2Camera \<Rightarrow> V4L2Camera call" where
  "cond_wait wake c d = (case wake c of None \<Rightarrow> BlocksOn c | Some f \<Rightarrow> Returns (f d))"

definition stopDeliveringFrames ::
  "(cond \<Rightarrow> (V4L2Camera \<Rightarrow> V4L2Camera) option) \<Rightarrow> stop_env \<Rightarrow> V4L2Camera
   \<Rightarrow> (status_t \<times> V4L2Camera \<times> action list) call" where
  "stopDeliveringFrames wake env d =
     (case (if mTakingPicture d then cond_wait wake CondTakePhotoEnd d else Returns d) of
        BlocksOn c \<Rightarrow> BlocksOn c
      | Returns d1 \<Rightarrow>
          (case (if \<not> mThreadRunning d1 then cond_wait wake CondThreadRunning d1
                 else Returns d1) of
             BlocksOn c \<Rightarrow> BlocksOn c
           | Returns d2 \<Rightarrow>
               if \<not> isStarted d2 then Returns (NO_ERROR, d2, [])
               else Returns (stopWorkerThread env d2)))"

text \<open>
  \<^verbatim>\<open>WorkerThread::Select\<close>. The system call \<^verbatim>\<open>select\<close> is the parameter \<open>sys_select\<close>:
  from the descriptor count, the descriptor set and the timeout it gives the result
  and the set of ready descriptors (after \<^verbatim>\<open>TEMP_FAILURE_RETRY\<close>). The control pipe is
  the list of the messages in it; \<^verbatim>\<open>read\<close> on the ready control descriptor takes the
  first message, and reads nothing (end of file) from an empty pipe.
\<close>

definition c_mod :: "int \<Rightarrow> int \<Rightarrow> int" where
  "c_mod a b = a - b * c_div a b"

definition read_msg :: "int list \<Rightarrow> int \<times> int option \<times> int list" where
  "read_msg pipe = (case pipe of [] \<Rightarrow> (0, None, []) | m # rest \<Rightarrow> (sizeof_msg, Some m, rest))"

definition Select ::
  "(int \<Rightarrow> int set \<Rightarrow> (int \<times> int) option \<Rightarrow> int \<times> int set) \<Rightarrow> WorkerThread \<Rightarrow> int list
   \<Rightarrow> int \<Rightarrow> int \<Rightarrow> SelectRes \<times> int list" where
  "Select sys_select wt pipe fd timeout =
     (let fd_num = (if fd \<ge> 0 then max fd (mControlFD wt) + 1 else mControlFD wt + 1);
          fds = {mControlFD wt} \<union> (if fd \<ge> 0 then {fd} else {});
          tvp = (if timeout \<noteq> 0
                 then Some (c_div timeout 1000000, c_mod timeout 1000000) else None)
      in (case sys_select fd_num fds tvp of
            (res, ready) \<Rightarrow>
              if res < 0 then (ERROR, pipe)
              else if res = 0 then (TIMEOUT, pipe)
              else if mControlFD wt \<in> ready then
                (case read_msg pipe of
                   (rres, msg, pipe') \<Rightarrow>
                     if rres \<noteq> sizeof_msg then (ERROR, pipe')
                     else if msg = Some THREAD_STOP then (EXIT_THREAD, pipe')
                     else (ERROR, pipe'))
              else (READY, pipe)))"

text \<open>
  The constructor (lines 34 to 43) initialises the timestamp, \<open>mCurrentFrame\<close>, \<open>mState\<close>
  and the three flags, and the worker pointer starts null. It assigns nothing to
  \<open>mFrameBufferSize\<close>, \<open>mFrameWidth\<close>, \<open>mFrameHeight\<close>, \<open>mPixelFormat\<close> and
  \<open>mTotalPixels\<close>: these keep whatever the storage of the object held, here the
  argument \<open>raw\<close>.
\<close>

definition V4L2Camera_ctor :: "V4L2Camera \<Rightarrow> V4L2Camera" where
  "V4L2Camera_ctor raw =
     raw\<lparr>mCurFrameTimestamp := 0, mCurrentFrame := None, mState := ECDS_CONSTRUCTED,
         mTakingPicture := False, mInPictureThread := False, mThreadRunning := False,
         mWorkerThread := None\<rparr>"

text \<open>
  A sample device for the closed examples below: the constructor run on zero-filled
  storage. Its five frame fields are 0, which is also what \<open>commonStopDevice\<close> leaves in
  the width, the height, the format and the pixel count.
\<close>

definition constructed :: V4L2Camera where
  "constructed =
     V4L2Camera_ctor
       \<lparr>mCurFrameTimestamp = 0, mCurrentFrame = None, mFrameBufferSize = 0,
        mFrameWidth = 0, mFrameHeight = 0, mPixelFormat = 0, mTotalPixels = 0,
        mState = ECDS_CONSTRUCTED, mTakingPicture = False, mInPictureThread = False,
        mThreadRunning = False, mWorkerThread = None\<rparr>"

section \<open>Auxiliary facts\<close>

lemma constructed_eq:
  "constructed =
     \<lparr>mCurFrameTimestamp = 0, mCurrentFrame = None, mFrameBufferSize = 0,
      mFrameWidth = 0, mFrameHeight = 0, mPixelFormat = 0, mTotalPixels = 0,
      mState = ECDS_CONSTRUCTED, mTakingPicture = False, mInPictureThread = False,
      mThreadRunning = False, mWorkerThread = None\<rparr>"
  by (simp add: constructed_def V4L2Camera_ctor_def)


lemma c_div_12_8: "c_div (x * 12) 8 = c_div (x * 3) 2"
proof -
  have "\<bar>x * 12\<bar> div 8 = \<bar>x * 3\<bar> div 2"
    by (simp add: abs_mult)
  moreover have "sgn (x * 12) = sgn (x * 3)"
    by (simp add: sgn_mult)
  ultimately show ?thesis
    by (simp add: c_div_def)
qed

lemma c_div_nonneg: "0 \<le> a \<Longrightarrow> 0 < b \<Longrightarrow> c_div a b = a div b"
  by (cases "a = 0") (simp_all add: c_div_def)

lemma live_append: "live (h @ [Some bs]) = insert (length h) (live h)"
  by (auto simp: live_def nth_append less_Suc_eq)

lemma live_free: "live (h[a := None]) = live h - {a}"
proof -
  have "\<And>x. x < length h \<Longrightarrow> (h[a := None] ! x \<noteq> None) = (h ! x \<noteq> None \<and> x \<noteq> a)"
    by (case_tac "x = a") simp_all
  then show ?thesis
    by (auto simp: live_def)
qed

lemma live_blk: "a \<in> live h \<longleftrightarrow> blk h a \<noteq> None"
  by (simp add: live_def blk_def)

lemma blk_append_old: "a < length h \<Longrightarrow> blk (h @ [x]) a = blk h a"
  by (simp add: blk_def nth_append)


lemmas format_defs =
  supported_format_def V4L2_PIX_FMT_YVU420_def V4L2_PIX_FMT_YUV420_def
  V4L2_PIX_FMT_NV21_def V4L2_PIX_FMT_NV12_def

lemmas status_defs = NO_ERROR_def OK_def ENOMEM_def EINVAL_def

lemma commonStartDevice_ok:
  assumes "supported_format pix_fmt"
    and "fst (commonStartDevice env width height pix_fmt (h, d)) = NO_ERROR"
  shows "\<exists>init. env = AllocGives init \<and> 0 \<le> c_div (int32 (int32 (width * height) * 12)) 8
     \<and> commonStartDevice env width height pix_fmt (h, d) =
         (NO_ERROR,
          h @ [Some (map init [0..<nat (c_div (int32 (int32 (width * height) * 12)) 8)])],
          d\<lparr>mFrameBufferSize := c_div (int32 (int32 (width * height) * 12)) 8,
            mFrameWidth := width, mFrameHeight := height,
            mPixelFormat := pix_fmt, mTotalPixels := int32 (width * height),
            mCurrentFrame := Some (length h, 0)\<rparr>)"
  using assms
  by (cases env)
    (auto simp: commonStartDevice_def new_array_def Let_def status_defs split: if_splits)

lemma Initialize_initialized: "isInitialized d \<Longrightarrow> Initialize new_wt d = (NO_ERROR, d)"
  by (simp add: Initialize_def)

lemma Initialize_fresh:
  "\<not> isInitialized d \<Longrightarrow>
   Initialize new_wt d =
     (case new_wt of
        None \<Rightarrow> (ENOMEM, d\<lparr>mWorkerThread := None\<rparr>)
      | Some w \<Rightarrow> (NO_ERROR, d\<lparr>mWorkerThread := Some w, mState := ECDS_INITIALIZED\<rparr>))"
  by (simp add: Initialize_def Let_def split: option.split)

lemma Initialize_establishes:
  assumes "fst (Initialize new_wt d) = NO_ERROR"
  shows "isInitialized (snd (Initialize new_wt d))"
proof (cases "isInitialized d")
  case True
  then show ?thesis
    by (simp add: Initialize_initialized)
next
  case False
  show ?thesis
  proof (cases new_wt)
    case None
    with False assms show ?thesis
      by (simp add: Initialize_fresh status_defs)
  next
    case (Some w)
    with False show ?thesis
      by (simp add: Initialize_fresh isInitialized_def)
  qed
qed

lemma commonStartDevice_live:
  assumes "supported_format pix_fmt"
    and "commonStartDevice env width height pix_fmt (h, d) = (NO_ERROR, h', d')"
  shows "live h' = insert (length h) (live h) \<and> mCurrentFrame d' = Some (length h, 0)
         \<and> length h' = Suc (length h)"
proof -
  have "fst (commonStartDevice env width height pix_fmt (h, d)) = NO_ERROR"
    by (simp add: assms(2))
  from commonStartDevice_ok [OF assms(1) this] assms(2) obtain init where
    "h' = h @ [Some (map init [0..<nat (c_div (int32 (int32 (width * height) * 12)) 8)])]"
    "d' = d\<lparr>mFrameBufferSize := c_div (int32 (int32 (width * height) * 12)) 8,
            mFrameWidth := width, mFrameHeight := height,
            mPixelFormat := pix_fmt, mTotalPixels := int32 (width * height),
            mCurrentFrame := Some (length h, 0)\<rparr>"
    by auto
  then show ?thesis
    by (simp add: live_append)
qed

lemma commonStopDevice_held:
  assumes "mCurrentFrame d = Some (a, 0)" and "a \<in> live h"
  shows "commonStopDevice (h, d) =
     Inr (h[a := None], d\<lparr>mFrameWidth := 0, mFrameHeight := 0, mTotalPixels := 0,
                           mPixelFormat := 0, mCurrentFrame := None\<rparr>)"
proof -
  from assms(2) obtain bs where "blk h a = Some bs"
    by (auto simp: live_blk)
  then show ?thesis
    using assms(1) by (simp add: commonStopDevice_def delete_array_def)
qed

lemma commonStopDevice_null:
  assumes "mCurrentFrame d = None"
  shows "commonStopDevice (h, d) =
     Inr (h, d\<lparr>mFrameWidth := 0, mFrameHeight := 0, mTotalPixels := 0, mPixelFormat := 0\<rparr>)"
  using assms by (simp add: commonStopDevice_def)

subsection \<open>Copying and converting frames\<close>

lemma blk_Some_length: "blk h a = Some bs \<Longrightarrow> a < length h"
  by (simp add: blk_def split: if_splits)

lemma blk_update_same: "a < length h \<Longrightarrow> blk (h[a := x]) a = x"
  by (simp add: blk_def)

lemma blk_update_other: "a \<noteq> b \<Longrightarrow> blk (h[a := x]) b = blk h b"
  by (simp add: blk_def)

lemma load_in:
  "blk h a = Some bs \<Longrightarrow> 0 \<le> k \<Longrightarrow> k < int (length bs) \<Longrightarrow> load h (a, k) = Inr (bs ! nat k)"
  by (simp add: load_def)

lemma store_in:
  "blk h a = Some bs \<Longrightarrow> 0 \<le> k \<Longrightarrow> k < int (length bs) \<Longrightarrow>
   store h (a, k) v = Inr (h[a := Some (bs[nat k := v])])"
  by (simp add: store_def)

lemma take_update_pair:
  "Suc D < length db \<Longrightarrow> take (Suc (Suc D)) (db[D := x, Suc D := y]) = take D db @ [x, y]"
  by (simp add: take_Suc_conv_app_nth)

lemma drop_update_pair:
  "drop (Suc (Suc D) + m) (db[D := x, Suc D := y]) = drop (Suc (Suc D) + m) db"
  by simp

lemma take_drop_pair:
  "Suc S < length sb \<Longrightarrow>
   take (Suc (Suc m)) (drop S sb) = sb ! S # sb ! Suc S # take m (drop (Suc (Suc S)) sb)"
  by (metis Cons_nth_drop_Suc Suc_lessD take_Suc_Cons)

text \<open>One turn of the loop on the pair at offset i.\<close>

lemma loop_step:
  assumes "blk h s = Some sb" and "blk h d = Some db" and "s \<noteq> d"
    and "Suc (S + i) < length sb" and "Suc (D + i) < length db" and "int i < n"
  shows "NV12ToNV21_loop h (s, int S) (d, int D) n (int i) =
         NV12ToNV21_loop (h[d := Some (db[D + i := sb ! Suc (S + i), Suc (D + i) := sb ! (S + i)])])
           (s, int S) (d, int D) n (int i + 2)"
proof -
  let ?h1 = "h[d := Some (db[D + i := sb ! Suc (S + i)])]"
  have dl: "d < length h"
    using assms(2) by (rule blk_Some_length)
  have l1: "load h (ptr_add (s, int S) (int i + 1)) = Inr (sb ! Suc (S + i))"
    using assms(1,4) by (simp add: ptr_add_def load_in nat_add_distrib)
  have s1: "store h (ptr_add (d, int D) (int i)) (sb ! Suc (S + i)) = Inr ?h1"
    using assms(2,5) by (simp add: ptr_add_def store_in nat_add_distrib)
  have b1: "blk ?h1 s = Some sb" "blk ?h1 d = Some (db[D + i := sb ! Suc (S + i)])"
    using assms(1,3) dl by (simp_all add: blk_update_other blk_update_same)
  have l2: "load ?h1 (ptr_add (s, int S) (int i)) = Inr (sb ! (S + i))"
    using b1(1) assms(4) by (simp add: ptr_add_def load_in nat_add_distrib)
  have s2: "store ?h1 (ptr_add (d, int D) (int i + 1)) (sb ! (S + i)) =
      Inr (h[d := Some (db[D + i := sb ! Suc (S + i), Suc (D + i) := sb ! (S + i)])])"
    using b1(2) assms(5) by (simp add: ptr_add_def store_in nat_add_distrib)
  show ?thesis
    using assms(6) by (subst NV12ToNV21_loop.simps) (simp add: l1 s1 l2 s2)
qed

lemma loop_done: "\<not> i < n \<Longrightarrow> NV12ToNV21_loop h src_uv dst_uv n i = Inr h"
  by (subst NV12ToNV21_loop.simps) simp

lemma loop_pairs:
  assumes "blk h s = Some sb" and "blk h d = Some db" and "s \<noteq> d"
    and "S + i + 2 * k \<le> length sb" and "D + i + 2 * k \<le> length db"
  shows "NV12ToNV21_loop h (s, int S) (d, int D) (int (i + 2 * k)) (int i) =
         Inr (h[d := Some (take (D + i) db @ swap_pairs (take (2 * k) (drop (S + i) sb))
                           @ drop (D + i + 2 * k) db)])"
  using assms
proof (induction k arbitrary: h db i)
  case 0
  have "d < length h"
    using "0.prems"(2) by (rule blk_Some_length)
  then have "h[d := Some db] = h"
    using "0.prems"(2) by (simp add: blk_def list_update_same_conv)
  then show ?case
    by (simp add: loop_done)
next
  case (Suc k)
  let ?db1 = "db[D + i := sb ! Suc (S + i), Suc (D + i) := sb ! (S + i)]"
  let ?h1 = "h[d := Some ?db1]"
  have dl: "d < length h"
    using Suc.prems(2) by (rule blk_Some_length)
  have step: "NV12ToNV21_loop h (s, int S) (d, int D) (int (i + 2 * Suc k)) (int i) =
      NV12ToNV21_loop ?h1 (s, int S) (d, int D) (int (i + 2 * Suc k)) (int i + 2)"
    using Suc.prems by (intro loop_step) simp_all
  have b1: "blk ?h1 s = Some sb" "blk ?h1 d = Some ?db1"
    using Suc.prems(1,3) dl by (simp_all add: blk_update_other blk_update_same)
  have ih: "NV12ToNV21_loop ?h1 (s, int S) (d, int D) (int (i + 2 + 2 * k)) (int (i + 2)) =
      Inr (?h1[d := Some (take (D + (i + 2)) ?db1
                          @ swap_pairs (take (2 * k) (drop (S + (i + 2)) sb))
                          @ drop (D + (i + 2) + 2 * k) ?db1)])"
    using Suc.prems(3,4,5) by (intro Suc.IH b1) simp_all
  have t: "take (D + (i + 2)) ?db1 = take (D + i) db @ [sb ! Suc (S + i), sb ! (S + i)]"
    using Suc.prems(5) take_update_pair [of "D + i" db] by simp
  have dr: "drop (D + (i + 2) + 2 * k) ?db1 = drop (D + i + 2 * Suc k) db"
    using drop_update_pair [of "D + i" "2 * k" db] by (simp add: add.assoc)
  have sw: "swap_pairs (take (2 * Suc k) (drop (S + i) sb)) =
      sb ! Suc (S + i) # sb ! (S + i) # swap_pairs (take (2 * k) (drop (S + (i + 2)) sb))"
    using Suc.prems(4) take_drop_pair [of "S + i" sb "2 * k"] by simp
  have lists: "take (D + (i + 2)) ?db1 @ swap_pairs (take (2 * k) (drop (S + (i + 2)) sb))
        @ drop (D + (i + 2) + 2 * k) ?db1 =
      take (D + i) db @ swap_pairs (take (2 * Suc k) (drop (S + i) sb))
        @ drop (D + i + 2 * Suc k) db"
    unfolding t dr sw by simp
  have args: "int (i + 2 * Suc k) = int (i + 2 + 2 * k)" "int i + 2 = int (i + 2)"
    by simp_all
  have "NV12ToNV21_loop h (s, int S) (d, int D) (int (i + 2 * Suc k)) (int i) =
      NV12ToNV21_loop ?h1 (s, int S) (d, int D) (int (i + 2 + 2 * k)) (int (i + 2))"
    using step unfolding args .
  also note ih
  finally show ?case
    unfolding lists by (simp only: list_update_overwrite)
qed


lemma memcpy_blocks:
  assumes "blk h s = Some sb" and "blk h d = Some db" and "s \<noteq> d"
    and "n \<le> length sb" and "n \<le> length db"
  shows "memcpy h (d, 0) (s, 0) (int n) = Inr (h[d := Some (take n sb @ drop n db)])"
  using assms by (simp add: memcpy_def)

lemma length_swap_pairs: "length (swap_pairs xs) = length xs"
  by (induction xs rule: swap_pairs.induct) simp_all

lemma swap_pairs_twice: "swap_pairs (swap_pairs xs) = xs"
  by (induction xs rule: swap_pairs.induct) simp_all

lemma swap_pairs_nth:
  "even (length xs) \<Longrightarrow> k < length xs \<Longrightarrow>
   swap_pairs xs ! k = xs ! (if even k then k + 1 else k - 1)"
proof (induction xs arbitrary: k rule: swap_pairs.induct)
  case (1 x y zs)
  show ?case
  proof (cases k)
    case 0
    then show ?thesis by simp
  next
    case (Suc j)
    show ?thesis
    proof (cases j)
      case 0
      with Suc show ?thesis by simp
    next
      case (Suc m)
      with \<open>k = Suc j\<close> 1 have "swap_pairs zs ! m = zs ! (if even m then m + 1 else m - 1)"
        by simp
      moreover have "odd m \<Longrightarrow> 0 < m"
        by (cases m) simp_all
      ultimately show ?thesis
        using \<open>k = Suc j\<close> Suc by (auto simp: nth_Cons')
    qed
  qed
qed simp_all

lemma length_nv21_of_nv12:
  "P + P div 2 \<le> length fb \<Longrightarrow> length (nv21_of_nv12 P fb) = P + P div 2"
  by (simp add: nv21_of_nv12_def length_swap_pairs)

lemma nv21_of_nv12_luma: "take P (nv21_of_nv12 P fb) = take P fb"
  by (cases "P \<le> length fb") (simp_all add: nv21_of_nv12_def)

lemma nv21_of_nv12_chroma:
  assumes "P + P div 2 \<le> length fb" and "even (P div 2)" and "k < P div 2"
  shows "nv21_of_nv12 P fb ! (P + k) = fb ! (P + (if even k then k + 1 else k - 1))"
proof -
  let ?c = "take (P div 2) (drop P fb)"
  have len: "length ?c = P div 2"
    using assms(1) by simp
  have P: "length (take P fb) = P"
    using assms(1) by simp
  have "nv21_of_nv12 P fb ! (P + k) = swap_pairs ?c ! k"
    using P by (simp add: nv21_of_nv12_def nth_append)
  also have "\<dots> = ?c ! (if even k then k + 1 else k - 1)"
    using assms(2,3) len by (intro swap_pairs_nth) simp_all
  also have "\<dots> = fb ! (P + (if even k then k + 1 else k - 1))"
  proof -
    have "(if even k then k + 1 else k - 1) < P div 2"
      using assms(2,3) by (auto elim!: evenE oddE)
    then show ?thesis
      using assms(1) by simp
  qed
  finally show ?thesis .
qed

lemma nv21_of_nv12_twice:
  assumes "P + P div 2 \<le> length fb"
  shows "nv21_of_nv12 P (nv21_of_nv12 P fb @ rest) = take (P + P div 2) fb"
proof -
  have P: "length (take P fb) = P"
    using assms by simp
  have c: "length (swap_pairs (take (P div 2) (drop P fb))) = P div 2"
    using assms by (simp add: length_swap_pairs)
  show ?thesis
    using P c by (simp add: nv21_of_nv12_def swap_pairs_twice take_add)
qed

lemma NV12ToNV21_blocks:
  assumes "blk h s = Some sb" and "blk h d = Some db" and "s \<noteq> d"
    and "0 \<le> width * height" and "P = nat (width * height)" and "even (P div 2)"
    and "P + P div 2 \<le> length sb" and "P + P div 2 \<le> length db"
  shows "NV12ToNV21 h (s, 0) (d, 0) width height =
         Inr (h[d := Some (nv21_of_nv12 P sb @ drop (P + P div 2) db)])"
proof -
  let ?db1 = "take P sb @ drop P db"
  let ?h1 = "h[d := Some ?db1]"
  obtain k where k: "P div 2 = 2 * k"
    using assms(6) by (elim evenE)
  have wh: "width * height = int P"
    using assms(4,5) by simp
  have dl: "d < length h"
    using assms(2) by (rule blk_Some_length)
  have cp: "memcpy h (d, 0) (s, 0) (int P) = Inr ?h1"
    using assms by (intro memcpy_blocks) simp_all
  have b1: "blk ?h1 s = Some sb" "blk ?h1 d = Some ?db1"
    using assms(1,3) dl by (simp_all add: blk_update_other blk_update_same)
  have half: "c_div (int P) 2 = int (0 + 2 * k)"
    using k by (simp add: c_div_nonneg zdiv_int [symmetric] del: of_nat_mult)
  have len1: "length ?db1 = length db"
    using assms(7,8) by simp
  have lp: "NV12ToNV21_loop ?h1 (s, int P) (d, int P) (int (0 + 2 * k)) (int 0) =
      Inr (?h1[d := Some (take (P + 0) ?db1 @ swap_pairs (take (2 * k) (drop (P + 0) sb))
                          @ drop (P + 0 + 2 * k) ?db1)])"
    using assms(3,7,8) k len1 by (intro loop_pairs b1) simp_all
  have t1: "take (P + 0) ?db1 = take P sb"
    using assms(7) by simp
  have d1: "drop (P + 0 + 2 * k) ?db1 = drop (P + P div 2) db"
    using assms(7) k by (simp add: add.commute)
  have s1: "drop (P + 0) sb = drop P sb"
    by simp
  have new: "nv21_of_nv12 P sb @ drop (P + P div 2) db =
      take P sb @ swap_pairs (take (2 * k) (drop P sb)) @ drop (P + P div 2) db"
    by (simp add: nv21_of_nv12_def k)
  from lp have "NV12ToNV21_loop ?h1 (s, int P) (d, int P) (c_div (int P) 2) 0 =
      Inr (h[d := Some (take P sb @ swap_pairs (take (2 * k) (drop P sb))
                        @ drop (P + P div 2) db)])"
    unfolding t1 d1 s1 half [symmetric] by simp
  then have "NV12ToNV21_loop ?h1 (s, int P) (d, int P) (c_div (int P) 2) 0 =
      Inr (h[d := Some (nv21_of_nv12 P sb @ drop (P + P div 2) db)])"
    by (simp only: new)
  then show ?thesis
    by (simp add: NV12ToNV21_def ptr_add_def wh cp)
qed

lemma frame_bytes:
  assumes "0 \<le> x"
  shows "c_div (x * 3) 2 = int (nat x + nat x div 2)"
proof -
  have "c_div (x * 3) 2 = x * 3 div 2"
    using assms by (simp add: c_div_nonneg)
  also have "\<dots> = x + x div 2"
    by presburger
  also have "\<dots> = int (nat x + nat x div 2)"
    using assms by (simp add: zdiv_int)
  finally show ?thesis .
qed

lemma getCurrentPreviewFrame_NV21:
  assumes "isStarted dev" and "mCurrentFrame dev = Some (s, 0)"
    and "mPixelFormat dev = V4L2_PIX_FMT_NV21"
    and "blk h s = Some fb" and "blk h b = Some db" and "s \<noteq> b"
    and "0 \<le> mFrameWidth dev * mFrameHeight dev"
    and "N = nat (mFrameWidth dev * mFrameHeight dev) + nat (mFrameWidth dev * mFrameHeight dev) div 2"
    and "N \<le> length fb" and "N \<le> length db"
  shows "getCurrentPreviewFrame h dev (Some (b, 0)) =
         Inr (OK, h[b := Some (take N fb @ drop N db)])"
proof -
  have "c_div (mFrameWidth dev * mFrameHeight dev * 3) 2 = int N"
    using assms(7,8) by (simp only: frame_bytes)
  moreover have "memcpy h (b, 0) (s, 0) (int N) = Inr (h[b := Some (take N fb @ drop N db)])"
    using assms by (intro memcpy_blocks) simp_all
  ultimately show ?thesis
    using assms(1,2,3) by (simp add: getCurrentPreviewFrame_def)
qed

lemma getCurrentPreviewFrame_NV12:
  assumes "isStarted dev" and "mCurrentFrame dev = Some (s, 0)"
    and "mPixelFormat dev = V4L2_PIX_FMT_NV12"
    and "blk h s = Some fb" and "blk h b = Some db" and "s \<noteq> b"
    and "0 \<le> mFrameWidth dev * mFrameHeight dev"
    and "P = nat (mFrameWidth dev * mFrameHeight dev)" and "even (P div 2)"
    and "P + P div 2 \<le> length fb" and "P + P div 2 \<le> length db"
  shows "getCurrentPreviewFrame h dev (Some (b, 0)) =
         Inr (OK, h[b := Some (nv21_of_nv12 P fb @ drop (P + P div 2) db)])"
proof -
  have "NV12ToNV21 h (s, 0) (b, 0) (mFrameWidth dev) (mFrameHeight dev) =
      Inr (h[b := Some (nv21_of_nv12 P fb @ drop (P + P div 2) db)])"
    using assms(4-11) by (intro NV12ToNV21_blocks) simp_all
  moreover have "V4L2_PIX_FMT_NV12 \<noteq> V4L2_PIX_FMT_NV21"
    by (simp add: format_defs)
  ultimately show ?thesis
    using assms(1,2,3) by (simp add: getCurrentPreviewFrame_def)
qed

section \<open>Properties\<close>

text \<open>
  C1, as stated: for each of the four supported pixel formats, getCurrentPreviewFrame
  on a started device fills the destination with width*height*3/2 bytes derived from
  the current frame. For the planar format YVU420, which commonStartDevice accepts, the
  call on a 2 by 2 frame returns OK and the destination still holds its six zero bytes:
  nothing of the frame has reached it.
\<close>

theorem getCurrentPreviewFrame_planar_counterexample:
  "supported_format V4L2_PIX_FMT_YVU420
   \<and> isStarted (constructed\<lparr>mState := ECDS_STARTED, mCurrentFrame := Some (0, 0),
          mFrameBufferSize := 6, mFrameWidth := 2, mFrameHeight := 2,
          mPixelFormat := V4L2_PIX_FMT_YVU420, mTotalPixels := 4\<rparr>)
   \<and> getCurrentPreviewFrame [Some [11, 12, 13, 14, 15, 16], Some [0, 0, 0, 0, 0, 0]]
        (constructed\<lparr>mState := ECDS_STARTED, mCurrentFrame := Some (0, 0),
          mFrameBufferSize := 6, mFrameWidth := 2, mFrameHeight := 2,
          mPixelFormat := V4L2_PIX_FMT_YVU420, mTotalPixels := 4\<rparr>) (Some (1, 0))
       = Inr (OK, [Some [11, 12, 13, 14, 15, 16], Some [0, 0, 0, 0, 0, 0]])"
  by (simp add: getCurrentPreviewFrame_def isStarted_def format_defs)

text \<open>
  C1, amended. On a started device whose frame buffer and destination are distinct
  live blocks of at least N = width*height*3/2 bytes (width*height not negative), and
  whose stored format is NV21, or NV12 with a chroma plane of an even number of bytes,
  getCurrentPreviewFrame returns OK and writes exactly the first N bytes of the
  destination from the current frame: the N frame bytes as they are for NV21, and for
  NV12 the luma plane followed by the chroma plane with the bytes of each pair
  exchanged. The rest of the destination and every other block are unchanged.
\<close>

theorem getCurrentPreviewFrame_semiplanar:
  assumes "isStarted dev" and "mCurrentFrame dev = Some (s, 0)"
    and "blk h s = Some fb" and "blk h b = Some db" and "s \<noteq> b"
    and "0 \<le> mFrameWidth dev * mFrameHeight dev"
    and "P = nat (mFrameWidth dev * mFrameHeight dev)" and "N = P + P div 2"
    and "N \<le> length fb" and "N \<le> length db"
  shows "int N = c_div (mFrameWidth dev * mFrameHeight dev * 3) 2
    \<and> (mPixelFormat dev = V4L2_PIX_FMT_NV21 \<longrightarrow>
         getCurrentPreviewFrame h dev (Some (b, 0)) =
           Inr (OK, h[b := Some (take N fb @ drop N db)]))
    \<and> (mPixelFormat dev = V4L2_PIX_FMT_NV12 \<and> even (P div 2) \<longrightarrow>
         getCurrentPreviewFrame h dev (Some (b, 0)) =
           Inr (OK, h[b := Some (nv21_of_nv12 P fb @ drop N db)]))
    \<and> length (take N fb) = N \<and> length (nv21_of_nv12 P fb) = N"
proof (intro conjI impI)
  show "int N = c_div (mFrameWidth dev * mFrameHeight dev * 3) 2"
    using assms(6,7,8) by (simp only: frame_bytes)
next
  assume "mPixelFormat dev = V4L2_PIX_FMT_NV21"
  then show "getCurrentPreviewFrame h dev (Some (b, 0)) =
      Inr (OK, h[b := Some (take N fb @ drop N db)])"
    using assms by (intro getCurrentPreviewFrame_NV21) simp_all
next
  assume "mPixelFormat dev = V4L2_PIX_FMT_NV12 \<and> even (P div 2)"
  then show "getCurrentPreviewFrame h dev (Some (b, 0)) =
      Inr (OK, h[b := Some (nv21_of_nv12 P fb @ drop N db)])"
    using assms unfolding \<open>N = P + P div 2\<close> by (intro getCurrentPreviewFrame_NV12) simp_all
next
  show "length (take N fb) = N"
    using assms(9) by simp
next
  show "length (nv21_of_nv12 P fb) = N"
    using assms(8,9) by (simp add: length_nv21_of_nv12)
qed

theorem getCurrentPreviewFrame_semiplanar_witness:
  "getCurrentPreviewFrame
        [Some [1, 2, 3, 4, 5, 6, 7, 8, 9, 10, 11, 12],
         Some [0, 0, 0, 0, 0, 0, 0, 0, 0, 0, 0, 0, 77]]
        (constructed\<lparr>mState := ECDS_STARTED, mCurrentFrame := Some (0, 0),
           mFrameBufferSize := 12, mFrameWidth := 4, mFrameHeight := 2,
           mPixelFormat := V4L2_PIX_FMT_NV21, mTotalPixels := 8\<rparr>) (Some (1, 0)) =
       Inr (OK, [Some [1, 2, 3, 4, 5, 6, 7, 8, 9, 10, 11, 12],
                 Some [1, 2, 3, 4, 5, 6, 7, 8, 9, 10, 11, 12, 77]])
   \<and> getCurrentPreviewFrame
        [Some [1, 2, 3, 4, 5, 6, 7, 8, 9, 10, 11, 12],
         Some [0, 0, 0, 0, 0, 0, 0, 0, 0, 0, 0, 0, 77]]
        (constructed\<lparr>mState := ECDS_STARTED, mCurrentFrame := Some (0, 0),
           mFrameBufferSize := 12, mFrameWidth := 4, mFrameHeight := 2,
           mPixelFormat := V4L2_PIX_FMT_NV12, mTotalPixels := 8\<rparr>) (Some (1, 0)) =
       Inr (OK, [Some [1, 2, 3, 4, 5, 6, 7, 8, 9, 10, 11, 12],
                 Some [1, 2, 3, 4, 5, 6, 7, 8, 10, 9, 12, 11, 77]])
   \<and> (12::int) = c_div (4 * 2 * 3) 2"
proof -
  let ?f = "[1, 2, 3, 4, 5, 6, 7, 8, 9, 10, 11, 12 :: byte]"
  let ?z = "[0, 0, 0, 0, 0, 0, 0, 0, 0, 0, 0, 0, 77 :: byte]"
  let ?h = "[Some ?f, Some ?z]"
  let ?nv21 = "constructed\<lparr>mState := ECDS_STARTED, mCurrentFrame := Some (0, 0),
           mFrameBufferSize := 12, mFrameWidth := 4, mFrameHeight := 2,
           mPixelFormat := V4L2_PIX_FMT_NV21, mTotalPixels := 8\<rparr>"
  let ?nv12 = "constructed\<lparr>mState := ECDS_STARTED, mCurrentFrame := Some (0, 0),
           mFrameBufferSize := 12, mFrameWidth := 4, mFrameHeight := 2,
           mPixelFormat := V4L2_PIX_FMT_NV12, mTotalPixels := 8\<rparr>"
  have conv: "nv21_of_nv12 8 ?f = [1, 2, 3, 4, 5, 6, 7, 8, 10, 9, 12, 11]"
    by (simp add: nv21_of_nv12_def)
  have b: "blk ?h 0 = Some ?f" "blk ?h 1 = Some ?z"
    by (simp_all add: blk_def)
  have st: "isStarted ?nv21" "isStarted ?nv12"
    by (simp_all add: isStarted_def)
  note a1 = getCurrentPreviewFrame_semiplanar
    [where dev = ?nv21 and s = 0 and h = ?h and fb = ?f and b = 1 and db = ?z
       and P = 8 and N = 12, OF st(1) _ b]
  note a2 = getCurrentPreviewFrame_semiplanar
    [where dev = ?nv12 and s = 0 and h = ?h and fb = ?f and b = 1 and db = ?z
       and P = 8 and N = 12, OF st(2) _ b]
  from a1 have 1: "getCurrentPreviewFrame ?h ?nv21 (Some (1, 0)) =
      Inr (OK, [Some ?f, Some [1, 2, 3, 4, 5, 6, 7, 8, 9, 10, 11, 12, 77]])"
    by simp
  from a2 have 2: "getCurrentPreviewFrame ?h ?nv12 (Some (1, 0)) =
      Inr (OK, [Some ?f, Some [1, 2, 3, 4, 5, 6, 7, 8, 10, 9, 12, 11, 77]])"
    by (simp add: conv)
  from a1 have 3: "(12::int) = c_div (4 * 2 * 3) 2"
    by simp
  from 1 2 3 show ?thesis
    by simp
qed

text \<open>
  C2. For every frame of width w and height h, NV12ToNV21 copies the w*h luma bytes
  and swaps every adjacent pair of the chroma plane of w*h/2 bytes, and reading out a
  stored NV21 frame copies the buffer byte for byte. The code fails this on a 2 by 1
  NV12 frame, a size commonStartDevice accepts and gives a 3-byte buffer: the chroma
  plane has one byte, the loop bound \<^verbatim>\<open>i < width * height / 2\<close> lets the turn \<open>i = 0\<close> run,
  and it reads \<^verbatim>\<open>src_uv[1]\<close> and writes \<^verbatim>\<open>dst_uv[1]\<close>, the byte at offset 3 of both
  3-byte buffers. The NV21 branch copies the same frame within bounds.
\<close>

theorem NV12ToNV21_overrun_2x1:
  "commonStartDevice (AllocGives (\<lambda>_. 0)) 2 1 V4L2_PIX_FMT_NV12 ([], constructed) =
     (NO_ERROR, [Some [0, 0, 0]],
      constructed\<lparr>mFrameBufferSize := 3, mFrameWidth := 2, mFrameHeight := 1,
         mPixelFormat := V4L2_PIX_FMT_NV12, mTotalPixels := 2,
         mCurrentFrame := Some (0, 0)\<rparr>)
   \<and> NV12ToNV21 [Some [1, 2, 3], Some [0, 0, 0]] (0, 0) (1, 0) 2 1 = Inl OutOfBounds
   \<and> getCurrentPreviewFrame [Some [1, 2, 3], Some [0, 0, 0]]
        (constructed\<lparr>mState := ECDS_STARTED, mFrameBufferSize := 3, mFrameWidth := 2,
           mFrameHeight := 1, mPixelFormat := V4L2_PIX_FMT_NV12, mTotalPixels := 2,
           mCurrentFrame := Some (0, 0)\<rparr>) (Some (1, 0)) = Inl OutOfBounds
   \<and> getCurrentPreviewFrame [Some [1, 2, 3], Some [0, 0, 0]]
        (constructed\<lparr>mState := ECDS_STARTED, mFrameBufferSize := 3, mFrameWidth := 2,
           mFrameHeight := 1, mPixelFormat := V4L2_PIX_FMT_NV21, mTotalPixels := 2,
           mCurrentFrame := Some (0, 0)\<rparr>) (Some (1, 0)) =
       Inr (OK, [Some [1, 2, 3], Some [1, 2, 3]])"
proof -
  let ?h = "[Some [1, 2, 3 :: byte], Some [0, 0, 0 :: byte]]"
  have start: "commonStartDevice (AllocGives (\<lambda>_. 0)) 2 1 V4L2_PIX_FMT_NV12 ([], constructed) =
     (NO_ERROR, [Some [0, 0, 0]],
      constructed\<lparr>mFrameBufferSize := 3, mFrameWidth := 2, mFrameHeight := 1,
         mPixelFormat := V4L2_PIX_FMT_NV12, mTotalPixels := 2,
         mCurrentFrame := Some (0, 0)\<rparr>)"
    by (simp add: commonStartDevice_def new_array_def supported_format_def int32_def
        c_div_def upt_rec Let_def status_defs)
  have luma: "memcpy ?h (1, 0) (0, 0) 2 = Inr [Some [1, 2, 3], Some [1, 2, 0]]"
    by (simp add: memcpy_def blk_def)
  have half: "c_div (2 * 1) 2 = 1"
    by (simp add: c_div_def)
  have past: "load [Some [1, 2, 3], Some [1, 2, 0]] (0, 3) = Inl OutOfBounds"
    by (simp add: load_def blk_def)
  have conv: "NV12ToNV21 ?h (0, 0) (1, 0) 2 1 = Inl OutOfBounds"
    using luma half past
    by (simp add: NV12ToNV21_def ptr_add_def NV12ToNV21_loop.simps [of _ _ _ 1 0])
  have whole: "c_div (2 * 1 * 3) 2 = 3"
    by (simp add: c_div_def)
  have copy: "memcpy ?h (1, 0) (0, 0) 3 = Inr [Some [1, 2, 3], Some [1, 2, 3]]"
    by (simp add: memcpy_def blk_def)
  have nv12: "getCurrentPreviewFrame ?h
        (constructed\<lparr>mState := ECDS_STARTED, mFrameBufferSize := 3, mFrameWidth := 2,
           mFrameHeight := 1, mPixelFormat := V4L2_PIX_FMT_NV12, mTotalPixels := 2,
           mCurrentFrame := Some (0, 0)\<rparr>) (Some (1, 0)) = Inl OutOfBounds"
    using conv by (simp add: getCurrentPreviewFrame_def isStarted_def format_defs)
  have nv21: "getCurrentPreviewFrame ?h
        (constructed\<lparr>mState := ECDS_STARTED, mFrameBufferSize := 3, mFrameWidth := 2,
           mFrameHeight := 1, mPixelFormat := V4L2_PIX_FMT_NV21, mTotalPixels := 2,
           mCurrentFrame := Some (0, 0)\<rparr>) (Some (1, 0)) =
       Inr (OK, [Some [1, 2, 3], Some [1, 2, 3]])"
    using whole copy by (simp add: getCurrentPreviewFrame_def isStarted_def)
  from start conv nv12 nv21 show ?thesis
    by simp
qed

text \<open>
  Where the chroma plane has an even number of bytes, the code does what the claim
  says. For every frame of width w and height h with w*h not negative and w*h/2
  even (as for all even w and h), in buffers of at least N = w*h*3/2 bytes:
  NV12ToNV21 copies the w*h luma bytes unchanged and writes the chroma plane with the
  two bytes of every even/odd pair exchanged, leaving the rest of the destination as
  it was; converting the result once more gives back the N bytes of the original
  frame. Reading out a stored NV21 frame with getCurrentPreviewFrame (any w*h not
  negative) gives a byte-identical copy of the N bytes of the frame buffer.
\<close>

theorem NV12ToNV21_swaps_chroma:
  assumes "blk h s = Some sb" and "blk h d = Some db" and "blk h t = Some tb"
    and "s \<noteq> d" and "d \<noteq> t"
    and "0 \<le> width * height" and "P = nat (width * height)" and "N = P + P div 2"
    and "N \<le> length sb" and "N \<le> length db" and "N \<le> length tb"
  shows "(even (P div 2) \<longrightarrow>
       NV12ToNV21 h (s, 0) (d, 0) width height =
         Inr (h[d := Some (nv21_of_nv12 P sb @ drop N db)])
       \<and> take P (nv21_of_nv12 P sb) = take P sb
       \<and> (\<forall>k<P div 2.
            nv21_of_nv12 P sb ! (P + k) = sb ! (P + (if even k then k + 1 else k - 1)))
       \<and> NV12ToNV21 (h[d := Some (nv21_of_nv12 P sb @ drop N db)]) (d, 0) (t, 0) width height =
         Inr (h[d := Some (nv21_of_nv12 P sb @ drop N db),
                t := Some (take N sb @ drop N tb)]))
    \<and> (isStarted dev \<and> mCurrentFrame dev = Some (s, 0)
        \<and> mPixelFormat dev = V4L2_PIX_FMT_NV21
        \<and> mFrameWidth dev = width \<and> mFrameHeight dev = height \<longrightarrow>
       getCurrentPreviewFrame h dev (Some (d, 0)) =
         Inr (OK, h[d := Some (take N sb @ drop N db)]))"
proof (intro conjI impI allI)
  assume ev: "even (P div 2)"
  let ?X = "nv21_of_nv12 P sb @ drop N db"
  let ?h1 = "h[d := Some ?X]"
  show first: "NV12ToNV21 h (s, 0) (d, 0) width height = Inr ?h1"
    using assms ev unfolding \<open>N = P + P div 2\<close> by (intro NV12ToNV21_blocks) simp_all
  have dl: "d < length h"
    using assms(2) by (rule blk_Some_length)
  have b1: "blk ?h1 d = Some ?X" "blk ?h1 t = Some tb"
    using assms(3,5) dl by (simp_all add: blk_update_other blk_update_same)
  have lenX: "P + P div 2 \<le> length ?X"
    using assms(8,9,10) by (simp add: length_nv21_of_nv12)
  have "NV12ToNV21 ?h1 (d, 0) (t, 0) width height =
      Inr (?h1[t := Some (nv21_of_nv12 P ?X @ drop (P + P div 2) tb)])"
    using assms(5,6,7,8,11) ev lenX by (intro NV12ToNV21_blocks b1) simp_all
  moreover have "nv21_of_nv12 P ?X = take N sb"
    using assms(8,9) by (simp add: nv21_of_nv12_twice)
  ultimately show "NV12ToNV21 ?h1 (d, 0) (t, 0) width height =
      Inr (h[d := Some ?X, t := Some (take N sb @ drop N tb)])"
    using assms(8) by simp
next
  show "take P (nv21_of_nv12 P sb) = take P sb"
    by (rule nv21_of_nv12_luma)
next
  fix k
  assume "even (P div 2)" and "k < P div 2"
  then show "nv21_of_nv12 P sb ! (P + k) = sb ! (P + (if even k then k + 1 else k - 1))"
    using assms(8,9) by (intro nv21_of_nv12_chroma) simp_all
next
  assume "isStarted dev \<and> mCurrentFrame dev = Some (s, 0)
        \<and> mPixelFormat dev = V4L2_PIX_FMT_NV21
        \<and> mFrameWidth dev = width \<and> mFrameHeight dev = height"
  then show "getCurrentPreviewFrame h dev (Some (d, 0)) =
      Inr (OK, h[d := Some (take N sb @ drop N db)])"
    using assms by (intro getCurrentPreviewFrame_NV21) simp_all
qed

theorem NV12ToNV21_swaps_chroma_witness:
  "even (nat (4 * 2) div 2)
   \<and> NV12ToNV21
        [Some [1, 2, 3, 4, 5, 6, 7, 8, 9, 10, 11, 12],
         Some [0, 0, 0, 0, 0, 0, 0, 0, 0, 0, 0, 0],
         Some [0, 0, 0, 0, 0, 0, 0, 0, 0, 0, 0, 0]] (0, 0) (1, 0) 4 2 =
       Inr [Some [1, 2, 3, 4, 5, 6, 7, 8, 9, 10, 11, 12],
            Some [1, 2, 3, 4, 5, 6, 7, 8, 10, 9, 12, 11],
            Some [0, 0, 0, 0, 0, 0, 0, 0, 0, 0, 0, 0]]
   \<and> NV12ToNV21
        [Some [1, 2, 3, 4, 5, 6, 7, 8, 9, 10, 11, 12],
         Some [1, 2, 3, 4, 5, 6, 7, 8, 10, 9, 12, 11],
         Some [0, 0, 0, 0, 0, 0, 0, 0, 0, 0, 0, 0]] (1, 0) (2, 0) 4 2 =
       Inr [Some [1, 2, 3, 4, 5, 6, 7, 8, 9, 10, 11, 12],
            Some [1, 2, 3, 4, 5, 6, 7, 8, 10, 9, 12, 11],
            Some [1, 2, 3, 4, 5, 6, 7, 8, 9, 10, 11, 12]]
   \<and> getCurrentPreviewFrame
        [Some [1, 2, 3, 4, 5, 6, 7, 8, 9, 10, 11, 12],
         Some [0, 0, 0, 0, 0, 0, 0, 0, 0, 0, 0, 0],
         Some [0, 0, 0, 0, 0, 0, 0, 0, 0, 0, 0, 0]]
        (constructed\<lparr>mState := ECDS_STARTED, mCurrentFrame := Some (0, 0),
           mFrameBufferSize := 12, mFrameWidth := 4, mFrameHeight := 2,
           mPixelFormat := V4L2_PIX_FMT_NV21, mTotalPixels := 8\<rparr>) (Some (1, 0)) =
       Inr (OK, [Some [1, 2, 3, 4, 5, 6, 7, 8, 9, 10, 11, 12],
                 Some [1, 2, 3, 4, 5, 6, 7, 8, 9, 10, 11, 12],
                 Some [0, 0, 0, 0, 0, 0, 0, 0, 0, 0, 0, 0]])"
proof -
  let ?f = "[1, 2, 3, 4, 5, 6, 7, 8, 9, 10, 11, 12 :: byte]"
  let ?z = "[0, 0, 0, 0, 0, 0, 0, 0, 0, 0, 0, 0 :: byte]"
  let ?h = "[Some ?f, Some ?z, Some ?z]"
  let ?dev = "constructed\<lparr>mState := ECDS_STARTED, mCurrentFrame := Some (0, 0),
           mFrameBufferSize := 12, mFrameWidth := 4, mFrameHeight := 2,
           mPixelFormat := V4L2_PIX_FMT_NV21, mTotalPixels := 8\<rparr>"
  have conv: "nv21_of_nv12 8 ?f = [1, 2, 3, 4, 5, 6, 7, 8, 10, 9, 12, 11]"
    by (simp add: nv21_of_nv12_def)
  have dev: "isStarted ?dev \<and> mCurrentFrame ?dev = Some (0, 0)
      \<and> mPixelFormat ?dev = V4L2_PIX_FMT_NV21 \<and> mFrameWidth ?dev = 4 \<and> mFrameHeight ?dev = 2"
    by (simp add: isStarted_def)
  have ev: "even (nat (4 * 2) div 2)"
    by simp
  have "blk ?h 0 = Some ?f" "blk ?h 1 = Some ?z" "blk ?h 2 = Some ?z"
    by (simp_all add: blk_def)
  from NV12ToNV21_swaps_chroma
    [where h = ?h and s = 0 and d = 1 and t = 2 and sb = ?f and db = ?z and tb = ?z
       and width = 4 and height = 2 and P = 8 and N = 12 and dev = ?dev, OF this]
    dev
  show ?thesis
    by (simp add: conv)
qed

text \<open>
  C3, as stated: stopDeliveringFrames on a device that is not started returns success
  and is not a blocked call. The test \<^verbatim>\<open>isStarted\<close> comes after the two waits. On the
  device as constructed, before any start, mThreadRunning is false, so the call waits
  on mCondThreadRunning; with no thread to signal it, the call does not return.
\<close>

theorem stopDeliveringFrames_blocks_counterexample:
  "\<not> isStarted constructed
   \<and> stopDeliveringFrames (\<lambda>c. None) \<lparr>wres = 4, errno = 0, exit_res = 0\<rparr> constructed
       = BlocksOn CondThreadRunning"
  by (simp add: stopDeliveringFrames_def cond_wait_def isStarted_def constructed_eq)

text \<open>
  C3, amended. When the device is not started, no picture is being taken and
  mThreadRunning is set, stopDeliveringFrames returns NO_ERROR at once, performs no
  stop action (no write, no join, no close) and leaves the device unchanged. When a
  picture is being taken the call first waits on mCondTakePhotoEnd, and when
  mThreadRunning is then clear it waits on mCondThreadRunning: it blocks for as long
  as the condition it waits on is not signalled, and once released, after one wait or
  after both, on a device that is not started, it returns NO_ERROR with no stop action
  and no change of its own: the device is as the other threads left it during the
  waits.
\<close>

theorem stopDeliveringFrames_not_started:
  "(\<not> mTakingPicture d \<and> mThreadRunning d \<and> \<not> isStarted d \<longrightarrow>
      stopDeliveringFrames wake env d = Returns (NO_ERROR, d, []))
   \<and> (mTakingPicture d \<and> wake CondTakePhotoEnd = None \<longrightarrow>
      stopDeliveringFrames wake env d = BlocksOn CondTakePhotoEnd)
   \<and> (\<not> mTakingPicture d \<and> \<not> mThreadRunning d \<and> wake CondThreadRunning = None \<longrightarrow>
      stopDeliveringFrames wake env d = BlocksOn CondThreadRunning)
   \<and> (\<not> mTakingPicture d \<and> \<not> mThreadRunning d \<and> wake CondThreadRunning = Some f
       \<and> \<not> isStarted (f d) \<longrightarrow>
      stopDeliveringFrames wake env d = Returns (NO_ERROR, f d, []))
   \<and> (mTakingPicture d \<and> wake CondTakePhotoEnd = Some g \<and> mThreadRunning (g d)
       \<and> \<not> isStarted (g d) \<longrightarrow>
      stopDeliveringFrames wake env d = Returns (NO_ERROR, g d, []))
   \<and> (mTakingPicture d \<and> wake CondTakePhotoEnd = Some g \<and> \<not> mThreadRunning (g d)
       \<and> wake CondThreadRunning = None \<longrightarrow>
      stopDeliveringFrames wake env d = BlocksOn CondThreadRunning)
   \<and> (mTakingPicture d \<and> wake CondTakePhotoEnd = Some g \<and> \<not> mThreadRunning (g d)
       \<and> wake CondThreadRunning = Some f \<and> \<not> isStarted (f (g d)) \<longrightarrow>
      stopDeliveringFrames wake env d = Returns (NO_ERROR, f (g d), []))"
  by (simp add: stopDeliveringFrames_def cond_wait_def)

theorem stopDeliveringFrames_not_started_witness:
  "\<not> isStarted (constructed\<lparr>mState := ECDS_STOPPED, mThreadRunning := True\<rparr>)
   \<and> stopDeliveringFrames (\<lambda>c. None) \<lparr>wres = 4, errno = 0, exit_res = 0\<rparr>
        (constructed\<lparr>mState := ECDS_STOPPED, mThreadRunning := True\<rparr>)
       = Returns (NO_ERROR, constructed\<lparr>mState := ECDS_STOPPED, mThreadRunning := True\<rparr>, [])
   \<and> stopDeliveringFrames (\<lambda>c. None) \<lparr>wres = 4, errno = 0, exit_res = 0\<rparr>
        (constructed\<lparr>mTakingPicture := True\<rparr>)
       = BlocksOn CondTakePhotoEnd
   \<and> stopDeliveringFrames (\<lambda>c. None) \<lparr>wres = 4, errno = 0, exit_res = 0\<rparr>
        (constructed\<lparr>mState := ECDS_INITIALIZED\<rparr>)
       = BlocksOn CondThreadRunning
   \<and> stopDeliveringFrames (\<lambda>c. Some (\<lambda>d. d\<lparr>mThreadRunning := True\<rparr>))
        \<lparr>wres = 4, errno = 0, exit_res = 0\<rparr> (constructed\<lparr>mState := ECDS_INITIALIZED\<rparr>)
       = Returns (NO_ERROR, constructed\<lparr>mState := ECDS_INITIALIZED, mThreadRunning := True\<rparr>, [])
   \<and> stopDeliveringFrames (\<lambda>c. Some (\<lambda>d. d\<lparr>mTakingPicture := False\<rparr>))
        \<lparr>wres = 4, errno = 0, exit_res = 0\<rparr>
        (constructed\<lparr>mState := ECDS_STOPPED, mTakingPicture := True, mThreadRunning := True\<rparr>)
       = Returns (NO_ERROR,
           constructed\<lparr>mState := ECDS_STOPPED, mTakingPicture := False,
                        mThreadRunning := True\<rparr>, [])
   \<and> stopDeliveringFrames
        (\<lambda>c. if c = CondTakePhotoEnd then Some (\<lambda>d. d\<lparr>mTakingPicture := False\<rparr>) else None)
        \<lparr>wres = 4, errno = 0, exit_res = 0\<rparr> (constructed\<lparr>mTakingPicture := True\<rparr>)
       = BlocksOn CondThreadRunning
   \<and> stopDeliveringFrames
        (\<lambda>c. if c = CondTakePhotoEnd then Some (\<lambda>d. d\<lparr>mTakingPicture := False\<rparr>)
              else Some (\<lambda>d. d\<lparr>mThreadRunning := True\<rparr>))
        \<lparr>wres = 4, errno = 0, exit_res = 0\<rparr> (constructed\<lparr>mTakingPicture := True\<rparr>)
       = Returns (NO_ERROR,
           constructed\<lparr>mTakingPicture := False, mThreadRunning := True\<rparr>, [])"
proof -
  let ?env = "\<lparr>wres = 4, errno = 0, exit_res = 0\<rparr>"
  let ?never = "\<lambda>c::cond. None :: (V4L2Camera \<Rightarrow> V4L2Camera) option"
  let ?run = "\<lambda>d. d\<lparr>mThreadRunning := True\<rparr>"
  let ?done = "\<lambda>d. d\<lparr>mTakingPicture := False\<rparr>"
  let ?photo = "\<lambda>c. if c = CondTakePhotoEnd then Some ?done else None"
  let ?both = "\<lambda>c. if c = CondTakePhotoEnd then Some ?done else Some ?run"
  note a = stopDeliveringFrames_not_started
    [where d = "constructed\<lparr>mState := ECDS_STOPPED, mThreadRunning := True\<rparr>"
       and wake = ?never and env = ?env and f = id and g = id]
  note b = stopDeliveringFrames_not_started
    [where d = "constructed\<lparr>mTakingPicture := True\<rparr>"
       and wake = ?never and env = ?env and f = id and g = id]
  note c = stopDeliveringFrames_not_started
    [where d = "constructed\<lparr>mState := ECDS_INITIALIZED\<rparr>"
       and wake = ?never and env = ?env and f = id and g = id]
  note e = stopDeliveringFrames_not_started
    [where d = "constructed\<lparr>mState := ECDS_INITIALIZED\<rparr>"
       and wake = "\<lambda>c. Some ?run" and env = ?env and f = ?run and g = ?run]
  note p = stopDeliveringFrames_not_started
    [where d = "constructed\<lparr>mState := ECDS_STOPPED, mTakingPicture := True,
                           mThreadRunning := True\<rparr>"
       and wake = "\<lambda>c. Some ?done" and env = ?env and f = ?done and g = ?done]
  note q = stopDeliveringFrames_not_started
    [where d = "constructed\<lparr>mTakingPicture := True\<rparr>"
       and wake = ?photo and env = ?env and f = id and g = ?done]
  note r = stopDeliveringFrames_not_started
    [where d = "constructed\<lparr>mTakingPicture := True\<rparr>"
       and wake = ?both and env = ?env and f = ?run and g = ?done]
  have 1: "\<not> isStarted (constructed\<lparr>mState := ECDS_STOPPED, mThreadRunning := True\<rparr>)"
    by (simp add: isStarted_def)
  from a 1 have 2: "stopDeliveringFrames ?never ?env
        (constructed\<lparr>mState := ECDS_STOPPED, mThreadRunning := True\<rparr>)
       = Returns (NO_ERROR, constructed\<lparr>mState := ECDS_STOPPED, mThreadRunning := True\<rparr>, [])"
    by (simp add: constructed_eq)
  from b have 3: "stopDeliveringFrames ?never ?env (constructed\<lparr>mTakingPicture := True\<rparr>)
       = BlocksOn CondTakePhotoEnd"
    by simp
  from c have 4: "stopDeliveringFrames ?never ?env (constructed\<lparr>mState := ECDS_INITIALIZED\<rparr>)
       = BlocksOn CondThreadRunning"
    by (simp add: constructed_eq)
  from e have 5: "stopDeliveringFrames (\<lambda>c. Some ?run) ?env
        (constructed\<lparr>mState := ECDS_INITIALIZED\<rparr>)
       = Returns (NO_ERROR, constructed\<lparr>mState := ECDS_INITIALIZED, mThreadRunning := True\<rparr>, [])"
    by (simp add: constructed_eq isStarted_def)
  from p have 6: "stopDeliveringFrames (\<lambda>c. Some ?done) ?env
        (constructed\<lparr>mState := ECDS_STOPPED, mTakingPicture := True, mThreadRunning := True\<rparr>)
       = Returns (NO_ERROR,
           constructed\<lparr>mState := ECDS_STOPPED, mTakingPicture := False,
                        mThreadRunning := True\<rparr>, [])"
    by (simp add: constructed_eq isStarted_def)
  from q have 7: "stopDeliveringFrames ?photo ?env (constructed\<lparr>mTakingPicture := True\<rparr>)
       = BlocksOn CondThreadRunning"
    by (simp add: constructed_eq)
  from r have 8: "stopDeliveringFrames ?both ?env (constructed\<lparr>mTakingPicture := True\<rparr>)
       = Returns (NO_ERROR,
           constructed\<lparr>mTakingPicture := False, mThreadRunning := True\<rparr>, [])"
    by (simp add: constructed_eq isStarted_def)
  from 1 2 3 4 5 6 7 8 show ?thesis
    by simp
qed

text \<open>
  C4. For every device state and every pixel format outside the supported set,
  commonStartDevice returns EINVAL and leaves the heap and every field of the device
  unchanged.
\<close>

theorem commonStartDevice_unsupported:
  "\<not> supported_format pix_fmt \<Longrightarrow>
   commonStartDevice env width height pix_fmt (h, d) = (EINVAL, h, d)"
  by (simp add: commonStartDevice_def)

theorem commonStartDevice_unsupported_witness:
  "\<not> supported_format 0x56595559
   \<and> commonStartDevice (AllocGives (\<lambda>_. 0)) 640 480 0x56595559 ([], constructed)
       = (EINVAL, [], constructed)"
  using commonStartDevice_unsupported
    [of "0x56595559" "AllocGives (\<lambda>_. 0)" 640 480 "[]" constructed]
  by (simp add: format_defs)

text \<open>
  C5, as stated: a failed frame-buffer allocation leaves the frame fields as they were
  before the call. The code caches the requested frame information before it
  allocates. On the sample device, whose width is 0 as \<open>commonStopDevice\<close> leaves it, a
  640 by 480 NV21 request whose allocation fails returns ENOMEM and the cached width
  is 640.
\<close>

theorem commonStartDevice_nomem_counterexample:
  "commonStopDevice ([], constructed) = Inr ([], constructed)
   \<and> mFrameWidth constructed = 0
   \<and> fst (commonStartDevice AllocFails 640 480 V4L2_PIX_FMT_NV21 ([], constructed)) = ENOMEM
   \<and> mFrameWidth (snd (snd (commonStartDevice AllocFails 640 480 V4L2_PIX_FMT_NV21
        ([], constructed)))) = 640"
  by (simp add: commonStartDevice_def commonStopDevice_def new_array_def format_defs
      constructed_eq Let_def)

text \<open>
  C5, amended. If the frame-buffer allocation inside commonStartDevice fails for a
  supported format, the call returns ENOMEM; the heap, the device state mState and
  every field the call does not cache are as before; mFrameWidth, mFrameHeight and
  mPixelFormat hold the requested values, mFrameBufferSize and mTotalPixels the values
  the code computes from them in 32-bit \<^verbatim>\<open>int\<close> arithmetic, and mCurrentFrame is the null
  pointer.
\<close>

theorem commonStartDevice_nomem:
  assumes "supported_format pix_fmt"
    and "fst (new_array env h (c_div (int32 (int32 (width * height) * 12)) 8)) = None"
  shows "commonStartDevice env width height pix_fmt (h, d) =
      (ENOMEM, h, d\<lparr>mFrameBufferSize := c_div (int32 (int32 (width * height) * 12)) 8,
                     mFrameWidth := width, mFrameHeight := height,
                     mPixelFormat := pix_fmt, mTotalPixels := int32 (width * height),
                     mCurrentFrame := None\<rparr>)
    \<and> mState (snd (snd (commonStartDevice env width height pix_fmt (h, d)))) = mState d"
  using assms
  by (auto simp: commonStartDevice_def new_array_def Let_def
      split: alloc_outcome.splits if_splits)

theorem commonStartDevice_nomem_witness:
  "supported_format V4L2_PIX_FMT_NV21
   \<and> fst (new_array AllocFails [] (c_div (int32 (int32 (640 * 480) * 12)) 8)) = None
   \<and> commonStartDevice AllocFails 640 480 V4L2_PIX_FMT_NV21 ([], constructed) =
      (ENOMEM, [], constructed\<lparr>mFrameBufferSize := 460800,
                     mFrameWidth := 640, mFrameHeight := 480,
                     mPixelFormat := V4L2_PIX_FMT_NV21, mTotalPixels := 307200,
                     mCurrentFrame := None\<rparr>)
   \<and> fst (new_array (AllocGives (\<lambda>_. 0)) []
          (c_div (int32 (int32 (16384 * 16384) * 12)) 8)) = None
   \<and> commonStartDevice (AllocGives (\<lambda>_. 0)) 16384 16384 V4L2_PIX_FMT_NV21
        ([], constructed) =
      (ENOMEM, [], constructed\<lparr>mFrameBufferSize := - 134217728,
                     mFrameWidth := 16384, mFrameHeight := 16384,
                     mPixelFormat := V4L2_PIX_FMT_NV21, mTotalPixels := 268435456,
                     mCurrentFrame := None\<rparr>)
   \<and> mState (snd (snd (commonStartDevice AllocFails 640 480 V4L2_PIX_FMT_NV21
        ([], constructed)))) = ECDS_CONSTRUCTED"
proof -
  have fmt: "supported_format V4L2_PIX_FMT_NV21"
    by (simp add: supported_format_def)
  have f1: "fst (new_array AllocFails [] (c_div (int32 (int32 (640 * 480) * 12)) 8)) = None"
    by (simp add: new_array_def)
  have f2: "fst (new_array (AllocGives (\<lambda>_. 0)) []
          (c_div (int32 (int32 (16384 * 16384) * 12)) 8)) = None"
    by (simp add: new_array_def int32_def c_div_def)
  note a = commonStartDevice_nomem [OF fmt f1, of constructed]
  note b = commonStartDevice_nomem [OF fmt f2, of constructed]
  from a have 1: "commonStartDevice AllocFails 640 480 V4L2_PIX_FMT_NV21 ([], constructed) =
      (ENOMEM, [], constructed\<lparr>mFrameBufferSize := 460800,
                     mFrameWidth := 640, mFrameHeight := 480,
                     mPixelFormat := V4L2_PIX_FMT_NV21, mTotalPixels := 307200,
                     mCurrentFrame := None\<rparr>)"
    by (simp add: int32_def c_div_def)
  from b have 2: "commonStartDevice (AllocGives (\<lambda>_. 0)) 16384 16384 V4L2_PIX_FMT_NV21
        ([], constructed) =
      (ENOMEM, [], constructed\<lparr>mFrameBufferSize := - 134217728,
                     mFrameWidth := 16384, mFrameHeight := 16384,
                     mPixelFormat := V4L2_PIX_FMT_NV21, mTotalPixels := 268435456,
                     mCurrentFrame := None\<rparr>)"
    by (simp add: int32_def c_div_def)
  from a have 3: "mState (snd (snd (commonStartDevice AllocFails 640 480 V4L2_PIX_FMT_NV21
        ([], constructed)))) = ECDS_CONSTRUCTED"
    by (simp add: constructed_eq)
  from fmt f1 f2 1 2 3 show ?thesis
    by simp
qed




text \<open>
  C7, as stated: whenever commonStartDevice allocates the frame buffer, the storage
  held before has been freed first, so two frame buffers are never live together.
  commonStartDevice contains no \<^verbatim>\<open>delete[]\<close>. Two starts in a row, of a 2 by 2 NV21 frame
  and then of a 4 by 2 NV12 frame, leave both blocks live, and the device points to the
  second only.
\<close>

theorem frame_buffer_leak_counterexample:
  "live (fst (snd (commonStartDevice (AllocGives (\<lambda>_. 0)) 4 2 V4L2_PIX_FMT_NV12
      (snd (commonStartDevice (AllocGives (\<lambda>_. 0)) 2 2 V4L2_PIX_FMT_NV21
         ([], constructed)))))) = {0, 1}
   \<and> mCurrentFrame (snd (snd (commonStartDevice (AllocGives (\<lambda>_. 0)) 4 2 V4L2_PIX_FMT_NV12
      (snd (commonStartDevice (AllocGives (\<lambda>_. 0)) 2 2 V4L2_PIX_FMT_NV21
         ([], constructed)))))) = Some (1, 0)"
proof -
  have first: "snd (commonStartDevice (AllocGives (\<lambda>_. 0)) 2 2 V4L2_PIX_FMT_NV21
         ([], constructed)) =
       ([Some (map (\<lambda>_. 0) [0..<6])],
        constructed\<lparr>mFrameBufferSize := 6, mFrameWidth := 2, mFrameHeight := 2,
            mPixelFormat := V4L2_PIX_FMT_NV21, mTotalPixels := 4,
            mCurrentFrame := Some (0, 0)\<rparr>)"
    by (simp add: commonStartDevice_def new_array_def supported_format_def int32_def c_div_def Let_def)
  have second: "commonStartDevice (AllocGives (\<lambda>_. 0)) 4 2 V4L2_PIX_FMT_NV12
       ([Some (map (\<lambda>_. 0) [0..<6])],
        constructed\<lparr>mFrameBufferSize := 6, mFrameWidth := 2, mFrameHeight := 2,
            mPixelFormat := V4L2_PIX_FMT_NV21, mTotalPixels := 4,
            mCurrentFrame := Some (0, 0)\<rparr>) =
       (NO_ERROR, [Some (map (\<lambda>_. 0) [0..<6]), Some (map (\<lambda>_. 0) [0..<12])],
        constructed\<lparr>mFrameBufferSize := 12, mFrameWidth := 4, mFrameHeight := 2,
            mPixelFormat := V4L2_PIX_FMT_NV12, mTotalPixels := 8,
            mCurrentFrame := Some (1, 0)\<rparr>)"
    by (simp add: commonStartDevice_def new_array_def supported_format_def int32_def c_div_def Let_def
        status_defs constructed_eq)
  have "live [Some (map (\<lambda>_. 0) [0..<6]), Some (map (\<lambda>_. (0::byte)) [0..<12])] = {0, 1}"
    by (auto simp: live_def less_Suc_eq)
  then show ?thesis
    by (simp add: first second)
qed

text \<open>
  C7, amended. commonStartDevice frees nothing: a successful call adds the fresh
  buffer to the live allocations, keeps every allocation that was live before, the
  buffer held at entry included, and points mCurrentFrame to the fresh one. The held
  buffer is freed by commonStopDevice, which removes exactly that block from the live
  allocations and sets mCurrentFrame to NULL, and which changes no allocation when no
  buffer is held. When commonStopDevice runs before commonStartDevice, the old buffer
  is freed before the new one is allocated: the live allocations are then those from
  before without the old buffer, plus the new one.
\<close>

theorem frame_buffer_release:
  "(supported_format pix_fmt
      \<and> commonStartDevice env width height pix_fmt (h, d) = (NO_ERROR, h', d') \<longrightarrow>
      live h' = insert (length h) (live h) \<and> length h \<notin> live h
      \<and> mCurrentFrame d' = Some (length h, 0))
   \<and> (mCurrentFrame d = Some (a, 0) \<and> a \<in> live h \<longrightarrow>
      commonStopDevice (h, d) =
        Inr (h[a := None], d\<lparr>mFrameWidth := 0, mFrameHeight := 0, mTotalPixels := 0,
                              mPixelFormat := 0, mCurrentFrame := None\<rparr>)
      \<and> live (h[a := None]) = live h - {a})
   \<and> (mCurrentFrame d = None \<longrightarrow>
      commonStopDevice (h, d) =
        Inr (h, d\<lparr>mFrameWidth := 0, mFrameHeight := 0, mTotalPixels := 0,
                   mPixelFormat := 0\<rparr>))
   \<and> (mCurrentFrame d = Some (a, 0) \<and> a \<in> live h \<and> commonStopDevice (h, d) = Inr s1
      \<and> supported_format pix_fmt
      \<and> commonStartDevice env width height pix_fmt s1 = (NO_ERROR, h2, d2) \<longrightarrow>
      live h2 = insert (length h) (live h - {a}) \<and> mCurrentFrame d2 = Some (length h, 0))"
proof (intro conjI impI)
  assume "supported_format pix_fmt
      \<and> commonStartDevice env width height pix_fmt (h, d) = (NO_ERROR, h', d')"
  then show "live h' = insert (length h) (live h)" "mCurrentFrame d' = Some (length h, 0)"
    using commonStartDevice_live by blast+
next
  show "length h \<notin> live h"
    by (simp add: live_def)
next
  assume "mCurrentFrame d = Some (a, 0) \<and> a \<in> live h"
  then show "commonStopDevice (h, d) =
        Inr (h[a := None], d\<lparr>mFrameWidth := 0, mFrameHeight := 0, mTotalPixels := 0,
                              mPixelFormat := 0, mCurrentFrame := None\<rparr>)"
    by (simp add: commonStopDevice_held)
next
  show "live (h[a := None]) = live h - {a}"
    by (rule live_free)
next
  assume "mCurrentFrame d = None"
  then show "commonStopDevice (h, d) =
        Inr (h, d\<lparr>mFrameWidth := 0, mFrameHeight := 0, mTotalPixels := 0,
                   mPixelFormat := 0\<rparr>)"
    by (rule commonStopDevice_null)
next
  assume a: "mCurrentFrame d = Some (a, 0) \<and> a \<in> live h \<and> commonStopDevice (h, d) = Inr s1
      \<and> supported_format pix_fmt
      \<and> commonStartDevice env width height pix_fmt s1 = (NO_ERROR, h2, d2)"
  then have "commonStopDevice (h, d) =
        Inr (h[a := None], d\<lparr>mFrameWidth := 0, mFrameHeight := 0, mTotalPixels := 0,
                              mPixelFormat := 0, mCurrentFrame := None\<rparr>)"
    by (intro commonStopDevice_held) simp_all
  with a have s1: "s1 = (h[a := None], d\<lparr>mFrameWidth := 0, mFrameHeight := 0, mTotalPixels := 0,
                              mPixelFormat := 0, mCurrentFrame := None\<rparr>)"
    by simp
  from a have "live h2 = insert (length (h[a := None])) (live (h[a := None]))
      \<and> mCurrentFrame d2 = Some (length (h[a := None]), 0)"
    unfolding s1 using commonStartDevice_live by blast
  then show "live h2 = insert (length h) (live h - {a})" "mCurrentFrame d2 = Some (length h, 0)"
    by (simp_all add: live_free)
qed

theorem frame_buffer_release_witness:
  "supported_format V4L2_PIX_FMT_NV12
   \<and> commonStartDevice (AllocGives (\<lambda>_. 0)) 4 2 V4L2_PIX_FMT_NV12
        ([Some [0, 0, 0, 0, 0, 0]],
         constructed\<lparr>mFrameBufferSize := 6, mFrameWidth := 2, mFrameHeight := 2,
            mPixelFormat := V4L2_PIX_FMT_NV21, mTotalPixels := 4,
            mCurrentFrame := Some (0, 0)\<rparr>) =
       (NO_ERROR, [Some [0, 0, 0, 0, 0, 0], Some [0, 0, 0, 0, 0, 0, 0, 0, 0, 0, 0, 0]],
        constructed\<lparr>mFrameBufferSize := 12, mFrameWidth := 4, mFrameHeight := 2,
            mPixelFormat := V4L2_PIX_FMT_NV12, mTotalPixels := 8,
            mCurrentFrame := Some (1, 0)\<rparr>)
   \<and> live [Some [0, 0, 0, 0, 0, 0], Some [0, 0, 0, 0, 0, 0, 0, 0, 0, 0, 0, 0]] = {0, 1}
   \<and> 0 \<in> live [Some [0, 0, 0, 0, 0, 0]]
   \<and> commonStopDevice
        ([Some [0, 0, 0, 0, 0, 0]],
         constructed\<lparr>mFrameBufferSize := 6, mFrameWidth := 2, mFrameHeight := 2,
            mPixelFormat := V4L2_PIX_FMT_NV21, mTotalPixels := 4,
            mCurrentFrame := Some (0, 0)\<rparr>) =
       Inr ([None], constructed\<lparr>mFrameBufferSize := 6\<rparr>)
   \<and> live [None] = {}
   \<and> commonStopDevice ([], constructed) = Inr ([], constructed)
   \<and> commonStartDevice (AllocGives (\<lambda>_. 0)) 4 2 V4L2_PIX_FMT_NV12
        ([None], constructed\<lparr>mFrameBufferSize := 6\<rparr>) =
       (NO_ERROR, [None, Some [0, 0, 0, 0, 0, 0, 0, 0, 0, 0, 0, 0]],
        constructed\<lparr>mFrameBufferSize := 12, mFrameWidth := 4, mFrameHeight := 2,
            mPixelFormat := V4L2_PIX_FMT_NV12, mTotalPixels := 8,
            mCurrentFrame := Some (1, 0)\<rparr>)
   \<and> live [None, Some [0, 0, 0, 0, 0, 0, 0, 0, 0, 0, 0, 0]] = {1}"
proof -
  let ?six = "[Some [0, 0, 0, 0, 0, 0 :: byte]]"
  let ?d1 = "constructed\<lparr>mFrameBufferSize := 6, mFrameWidth := 2, mFrameHeight := 2,
            mPixelFormat := V4L2_PIX_FMT_NV21, mTotalPixels := 4,
            mCurrentFrame := Some (0, 0)\<rparr>"
  let ?twelve = "Some [0, 0, 0, 0, 0, 0, 0, 0, 0, 0, 0, 0 :: byte]"
  let ?d2 = "constructed\<lparr>mFrameBufferSize := 12, mFrameWidth := 4, mFrameHeight := 2,
            mPixelFormat := V4L2_PIX_FMT_NV12, mTotalPixels := 8,
            mCurrentFrame := Some (1, 0)\<rparr>"
  let ?env = "AllocGives (\<lambda>_. 0)"
  have fmt: "supported_format V4L2_PIX_FMT_NV12"
    by (simp add: supported_format_def)
  have upt12: "map (\<lambda>_. 0 :: byte) [0..<12] = [0, 0, 0, 0, 0, 0, 0, 0, 0, 0, 0, 0]"
    by (simp add: upt_rec)
  have leak: "commonStartDevice ?env 4 2 V4L2_PIX_FMT_NV12 (?six, ?d1) =
      (NO_ERROR, ?six @ [?twelve], ?d2)"
    by (simp add: commonStartDevice_def new_array_def fmt int32_def c_div_def upt12 Let_def status_defs
        constructed_eq)
  have live6: "live ?six = {0}"
    by (auto simp: live_def)
  have held: "mCurrentFrame ?d1 = Some (0, 0) \<and> 0 \<in> live ?six"
    by (simp add: live6)
  have stopped: "constructed\<lparr>mFrameBufferSize := 6\<rparr> =
      ?d1\<lparr>mFrameWidth := 0, mFrameHeight := 0, mTotalPixels := 0,
           mPixelFormat := 0, mCurrentFrame := None\<rparr>"
    by (simp add: constructed_eq)
  have null: "constructed = constructed\<lparr>mFrameWidth := 0, mFrameHeight := 0,
      mTotalPixels := 0, mPixelFormat := 0\<rparr>" "mCurrentFrame constructed = None"
    by (simp_all add: constructed_eq)
  have again: "commonStartDevice ?env 4 2 V4L2_PIX_FMT_NV12
      ([None], constructed\<lparr>mFrameBufferSize := 6\<rparr>) = (NO_ERROR, [None, ?twelve], ?d2)"
    by (simp add: commonStartDevice_def new_array_def fmt int32_def c_div_def upt12 Let_def status_defs
        constructed_eq)
  note a = frame_buffer_release
    [where pix_fmt = V4L2_PIX_FMT_NV12 and env = ?env and width = 4 and height = 2
       and h = ?six and d = ?d1 and h' = "?six @ [?twelve]" and d' = ?d2 and a = 0
       and ?s1.0 = "([None], constructed\<lparr>mFrameBufferSize := 6\<rparr>)"
       and ?h2.0 = "[None, ?twelve]" and ?d2.0 = ?d2]
  note b = frame_buffer_release
    [where pix_fmt = V4L2_PIX_FMT_NV12 and env = ?env and width = 4 and height = 2
       and h = "[]" and d = constructed and h' = "[]" and d' = constructed and a = 0
       and ?s1.0 = "([], constructed)" and ?h2.0 = "[]" and ?d2.0 = constructed]
  from a fmt leak live6 have 1: "live (?six @ [?twelve]) = {0, 1}"
    by auto
  from a held stopped have 2: "commonStopDevice (?six, ?d1) =
      Inr ([None], constructed\<lparr>mFrameBufferSize := 6\<rparr>)" and 3: "live [None] = {}"
    by (simp_all add: live6)
  from b null have 4: "commonStopDevice ([], constructed) = Inr ([], constructed)"
    by simp
  from a held 2 fmt again live6 have 5: "live [None, ?twelve] = {1}"
    by simp
  from fmt leak 1 held 2 3 4 again 5 show ?thesis
    by simp
qed

text \<open>
  C8. Initialize on an initialized device returns NO_ERROR and changes nothing: no
  worker object is installed and mState keeps its value. In particular a second
  Initialize after a successful first one returns NO_ERROR and leaves the device as the
  first one left it.
\<close>

theorem Initialize_repeat:
  "(isInitialized d \<longrightarrow> Initialize new_wt d = (NO_ERROR, d))
   \<and> (fst (Initialize w1 d) = NO_ERROR \<longrightarrow>
        Initialize w2 (snd (Initialize w1 d)) = (NO_ERROR, snd (Initialize w1 d)))"
  using Initialize_initialized Initialize_establishes by blast

theorem Initialize_repeat_witness:
  "\<not> isInitialized constructed
   \<and> Initialize (Some \<lparr>mThreadControl = -1, mControlFD = -1\<rparr>) constructed =
       (NO_ERROR, constructed\<lparr>mWorkerThread := Some \<lparr>mThreadControl = -1, mControlFD = -1\<rparr>,
                              mState := ECDS_INITIALIZED\<rparr>)
   \<and> isInitialized (constructed\<lparr>mWorkerThread := Some \<lparr>mThreadControl = -1, mControlFD = -1\<rparr>,
                              mState := ECDS_INITIALIZED\<rparr>)
   \<and> Initialize (Some \<lparr>mThreadControl = 7, mControlFD = 6\<rparr>)
       (constructed\<lparr>mWorkerThread := Some \<lparr>mThreadControl = -1, mControlFD = -1\<rparr>,
                    mState := ECDS_INITIALIZED\<rparr>) =
       (NO_ERROR, constructed\<lparr>mWorkerThread := Some \<lparr>mThreadControl = -1, mControlFD = -1\<rparr>,
                              mState := ECDS_INITIALIZED\<rparr>)"
proof -
  let ?w = "Some \<lparr>mThreadControl = -1, mControlFD = -1\<rparr>"
  have first: "Initialize ?w constructed =
      (NO_ERROR, constructed\<lparr>mWorkerThread := ?w, mState := ECDS_INITIALIZED\<rparr>)"
    by (simp add: Initialize_def isInitialized_def constructed_eq Let_def)
  have init: "isInitialized (constructed\<lparr>mWorkerThread := ?w, mState := ECDS_INITIALIZED\<rparr>)"
    by (simp add: isInitialized_def)
  have "\<not> isInitialized constructed"
    by (simp add: isInitialized_def constructed_eq)
  then show ?thesis
    using Initialize_repeat
      [of constructed "Some \<lparr>mThreadControl = 7, mControlFD = 6\<rparr>" ?w
          "Some \<lparr>mThreadControl = 7, mControlFD = 6\<rparr>"]
      first init
    by simp
qed

text \<open>
  C9. When select reports ready descriptors and the control descriptor is among them
  (whether or not the source descriptor is ready too), Select reads exactly one message
  from the control pipe: for THREAD_STOP it returns EXIT_THREAD, for any other message
  ERROR, and ERROR as well when the read yields no whole message; it never returns
  READY.
\<close>

theorem Select_control_first:
  assumes "sys_select (if fd \<ge> 0 then max fd (mControlFD wt) + 1 else mControlFD wt + 1)
             ({mControlFD wt} \<union> (if fd \<ge> 0 then {fd} else {}))
             (if timeout \<noteq> 0 then Some (c_div timeout 1000000, c_mod timeout 1000000) else None)
           = (res, ready)"
    and "0 < res" and "mControlFD wt \<in> ready"
  shows "fst (Select sys_select wt pipe fd timeout) \<noteq> READY
    \<and> Select sys_select wt (THREAD_STOP # rest) fd timeout = (EXIT_THREAD, rest)
    \<and> (m \<noteq> THREAD_STOP \<longrightarrow> Select sys_select wt (m # rest) fd timeout = (ERROR, rest))
    \<and> Select sys_select wt [] fd timeout = (ERROR, [])"
  using assms
  by (simp add: Select_def read_msg_def Let_def split: list.split)

theorem Select_control_first_witness:
  "(\<lambda>n fds tv. (2, {5, 7})) (max 7 5 + 1) {5, 7} None = (2, {5, 7 :: int})
   \<and> (0::int) < 2 \<and> (5::int) \<in> {5, 7} \<and> (7::int) \<in> {5, 7}
   \<and> Select (\<lambda>n fds tv. (2, {5, 7})) \<lparr>mThreadControl = 6, mControlFD = 5\<rparr>
        [THREAD_STOP, THREAD_STOP] 7 0 = (EXIT_THREAD, [THREAD_STOP])
   \<and> Select (\<lambda>n fds tv. (2, {5, 7})) \<lparr>mThreadControl = 6, mControlFD = 5\<rparr>
        [1, THREAD_STOP] 7 0 = (ERROR, [THREAD_STOP])
   \<and> fst (Select (\<lambda>n fds tv. (2, {5, 7})) \<lparr>mThreadControl = 6, mControlFD = 5\<rparr>
        [THREAD_STOP] 7 0) \<noteq> READY"
  using Select_control_first
    [where fd = 7 and wt = "\<lparr>mThreadControl = 6, mControlFD = 5\<rparr>"
       and sys_select = "\<lambda>n fds tv. (2, {5, 7})" and timeout = 0 and res = 2
       and ready = "{5, 7}" and pipe = "[THREAD_STOP]" and rest = "[THREAD_STOP]" and m = 1]
  by (simp add: THREAD_STOP_def)

text \<open>
  C10. On a started device with a frame buffer and a non-null destination, when the
  stored pixel format is neither NV21 nor NV12, getCurrentPreviewFrame returns OK and
  the whole heap, the destination included, is unchanged.
\<close>

theorem getCurrentPreviewFrame_planar:
  assumes "isStarted d" and "mCurrentFrame d = Some frame"
    and "mPixelFormat d \<noteq> V4L2_PIX_FMT_NV21" and "mPixelFormat d \<noteq> V4L2_PIX_FMT_NV12"
  shows "getCurrentPreviewFrame h d (Some buf) = Inr (OK, h)"
  using assms by (simp add: getCurrentPreviewFrame_def)

theorem getCurrentPreviewFrame_planar_witness:
  "isStarted (constructed\<lparr>mState := ECDS_STARTED, mCurrentFrame := Some (0, 0),
          mFrameBufferSize := 6, mFrameWidth := 2, mFrameHeight := 2,
          mPixelFormat := V4L2_PIX_FMT_YUV420, mTotalPixels := 4\<rparr>)
   \<and> V4L2_PIX_FMT_YUV420 \<noteq> V4L2_PIX_FMT_NV21
   \<and> V4L2_PIX_FMT_YUV420 \<noteq> V4L2_PIX_FMT_NV12
   \<and> getCurrentPreviewFrame [Some [1, 2, 3, 4, 5, 6], Some [0, 0, 0, 0, 0, 0]]
        (constructed\<lparr>mState := ECDS_STARTED, mCurrentFrame := Some (0, 0),
          mFrameBufferSize := 6, mFrameWidth := 2, mFrameHeight := 2,
          mPixelFormat := V4L2_PIX_FMT_YUV420, mTotalPixels := 4\<rparr>) (Some (1, 0))
       = Inr (OK, [Some [1, 2, 3, 4, 5, 6], Some [0, 0, 0, 0, 0, 0]])"
  using getCurrentPreviewFrame_planar
    [of "constructed\<lparr>mState := ECDS_STARTED, mCurrentFrame := Some (0, 0),
          mFrameBufferSize := 6, mFrameWidth := 2, mFrameHeight := 2,
          mPixelFormat := V4L2_PIX_FMT_YUV420, mTotalPixels := 4\<rparr>" "(0, 0)"
        "[Some [1, 2, 3, 4, 5, 6], Some [0, 0, 0, 0, 0, 0]]" "(1, 0)"]
  by (simp add: isStarted_def format_defs)

end
